theory Spec2Isabelle
  imports Main "HOL-Library.Sublist"
begin

section \<open>Go values used by the program\<close>

text \<open>
  A Go \<open>string\<close> is a sequence of bytes, here a \<open>char list\<close>.  A Go \<open>error\<close> is a
  message together with the error it wraps, if any: \<open>fmt.Errorf\<close> with the verb \<open>%w\<close>
  prints the message of its argument in place and keeps the argument as the wrapped
  cause; without \<open>%w\<close> nothing is wrapped.
\<close>

datatype error = Error (err_msg: string) (err_unwrap: "error option")

text \<open>
  A call that can panic either panics or returns.  The only panic the modelled
  functions can raise is the nil dereference in \<open>readInput\<close>.
\<close>

datatype 'a outcome = Panic string | Return 'a

subsection \<open>Decimal rendering: \<open>%d\<close> and \<open>appendInt\<close> of package time\<close>

definition digit :: "nat \<Rightarrow> char" where
  "digit n = ''0123456789'' ! n"

function decimal :: "nat \<Rightarrow> string" where
  "decimal n = (if n < 10 then [digit n] else decimal (n div 10) @ [digit (n mod 10)])"
  by pat_completeness auto
termination
  by (relation "measure (\<lambda>n. n)") auto

declare decimal.simps [simp del]

text \<open>The verb \<open>%d\<close> applied to an \<open>int\<close>: a minus sign for a negative number, no padding.\<close>

definition itoa :: "int \<Rightarrow> string" where
  "itoa x = (if x < 0 then ''-'' @ decimal (nat (- x)) else decimal (nat x))"

text \<open>
  \<open>appendInt(b, x, width)\<close> of \<open>time/format.go\<close> appends a minus sign for a negative \<open>x\<close>,
  then the decimal digits of \<open>|x|\<close> padded on the left with zeros up to \<open>width\<close>; a
  number with more digits than \<open>width\<close> is written in full.  The model returns the
  appended bytes.
\<close>

definition appendInt :: "int \<Rightarrow> nat \<Rightarrow> string" where
  "appendInt x width =
     (let ds = decimal (nat \<bar>x\<bar>)
      in (if x < 0 then ''-'' else []) @ replicate (width - length ds) (CHR ''0'') @ ds)"

subsection \<open>Package strings\<close>

fun strings_Join :: "string list \<Rightarrow> string \<Rightarrow> string" where
  "strings_Join [] sep = []"
| "strings_Join [a] sep = a"
| "strings_Join (a # b # rest) sep = a @ sep @ strings_Join (b # rest) sep"

fun strings_Contains :: "string \<Rightarrow> string \<Rightarrow> bool" where
  "strings_Contains [] substr = (substr = [])"
| "strings_Contains (c # cs) substr = (prefix substr (c # cs) \<or> strings_Contains cs substr)"

text \<open>
  \<open>strings.TrimSpace\<close> removes leading and trailing white space as \<open>unicode.IsSpace\<close>
  defines it: the six ASCII characters tab, line feed, vertical tab, form feed, carriage
  return and space, and the code points U+0085, U+00A0, U+1680, U+2000 to U+200A,
  U+2028, U+2029, U+202F, U+205F and U+3000, which appear in a string as their UTF-8
  encodings.
\<close>

definition asciiSpace :: "char \<Rightarrow> bool" where
  "asciiSpace c = (c \<in> set [CHR 0x09, CHR 0x0A, CHR 0x0B, CHR 0x0C, CHR 0x0D, CHR 0x20])"

definition unicodeSpaces :: "string list" where
  "unicodeSpaces =
     [[CHR 0xC2, CHR 0x85], [CHR 0xC2, CHR 0xA0], [CHR 0xE1, CHR 0x9A, CHR 0x80]]
     @ map (\<lambda>b. [CHR 0xE2, CHR 0x80, b])
         [CHR 0x80, CHR 0x81, CHR 0x82, CHR 0x83, CHR 0x84, CHR 0x85, CHR 0x86, CHR 0x87,
          CHR 0x88, CHR 0x89, CHR 0x8A, CHR 0xA8, CHR 0xA9, CHR 0xAF]
     @ [[CHR 0xE2, CHR 0x81, CHR 0x9F], [CHR 0xE3, CHR 0x80, CHR 0x80]]"

text \<open>The number of bytes of white space at the front of a string (0 when there is none).\<close>

definition leadingSpace :: "string \<Rightarrow> nat" where
  "leadingSpace s =
     (case s of
        [] \<Rightarrow> 0
      | c # _ \<Rightarrow>
          if asciiSpace c then 1
          else (case filter (\<lambda>u. prefix u s) unicodeSpaces of [] \<Rightarrow> 0 | u # _ \<Rightarrow> length u))"

definition trailingSpace :: "string \<Rightarrow> nat" where
  "trailingSpace s =
     (case rev s of
        [] \<Rightarrow> 0
      | c # _ \<Rightarrow>
          if asciiSpace c then 1
          else (case filter (\<lambda>u. prefix (rev u) (rev s)) unicodeSpaces of
                  [] \<Rightarrow> 0
                | u # _ \<Rightarrow> length u))"

function trimLeft :: "string \<Rightarrow> string" where
  "trimLeft s = (if leadingSpace s = 0 then s else trimLeft (drop (leadingSpace s) s))"
  by pat_completeness auto
termination
proof (relation "measure length")
  show "wf (measure length)" by simp
next
  fix s :: string
  assume "leadingSpace s \<noteq> 0"
  then have "s \<noteq> []" by (auto simp: leadingSpace_def)
  with \<open>leadingSpace s \<noteq> 0\<close> show "(drop (leadingSpace s) s, s) \<in> measure length" by simp
qed

function trimRight :: "string \<Rightarrow> string" where
  "trimRight s =
     (if trailingSpace s = 0 then s else trimRight (take (length s - trailingSpace s) s))"
  by pat_completeness auto
termination
proof (relation "measure length")
  show "wf (measure length)" by simp
next
  fix s :: string
  assume "trailingSpace s \<noteq> 0"
  then have "s \<noteq> []" by (auto simp: trailingSpace_def)
  with \<open>trailingSpace s \<noteq> 0\<close>
  show "(take (length s - trailingSpace s) s, s) \<in> measure length" by simp
qed

declare trimLeft.simps [simp del] trimRight.simps [simp del]

definition strings_TrimSpace :: "string \<Rightarrow> string" where
  "strings_TrimSpace s = trimRight (trimLeft s)"

subsection \<open>Package time: a time as its calendar and clock fields\<close>

text \<open>
  A \<open>time.Time\<close> is seen through \<open>Year()\<close>, \<open>Month()\<close>, \<open>Day()\<close>, \<open>Hour()\<close>,
  \<open>Minute()\<close> and \<open>Second()\<close>, in the time's own location.  Go keeps the month in
  1..12, the day in 1..31, the hour below 24 and minute and second below 60; the year is
  an \<open>int\<close> with no bound of four digits.
\<close>

record Time =
  Year :: int
  Month :: nat
  Day :: nat
  Hour :: nat
  Minute :: nat
  Second :: nat

definition valid_Time :: "Time \<Rightarrow> bool" where
  "valid_Time t =
     (1 \<le> Month t \<and> Month t \<le> 12 \<and> 1 \<le> Day t \<and> Day t \<le> 31
      \<and> Hour t < 24 \<and> Minute t < 60 \<and> Second t < 60)"

text \<open>
  \<open>Time.Format\<close> walks the layout: \<open>nextStdChunk\<close> recognises the reference-time
  pieces, every other byte is copied.  The model has the numeric pieces (\<open>2006\<close>,
  \<open>06\<close>, \<open>01\<close>, \<open>1\<close>, \<open>02\<close>, \<open>2\<close>, \<open>15\<close>, \<open>03\<close>, \<open>3\<close>, \<open>04\<close>, \<open>4\<close>,
  \<open>05\<close>, \<open>5\<close>); it does not have the names of months and days, the zones, the
  fractional seconds or the day of the year, none of which occurs in a layout of this
  program (those are \<open>2006\<close>, \<open>01\<close>, \<open>20060102\<close> and \<open>15:04:05\<close>).
\<close>

datatype std =
    stdLongYear | stdYear | stdZeroMonth | stdNumMonth | stdZeroDay | stdDay
  | stdHour | stdZeroHour12 | stdHour12 | stdZeroMinute | stdMinute
  | stdZeroSecond | stdSecond | stdLiteral char

definition nextStdChunk :: "char \<Rightarrow> string \<Rightarrow> std \<times> string" where
  "nextStdChunk c cs =
     (if c = CHR ''0'' \<and> prefix ''1'' cs then (stdZeroMonth, drop 1 cs)
      else if c = CHR ''0'' \<and> prefix ''2'' cs then (stdZeroDay, drop 1 cs)
      else if c = CHR ''0'' \<and> prefix ''3'' cs then (stdZeroHour12, drop 1 cs)
      else if c = CHR ''0'' \<and> prefix ''4'' cs then (stdZeroMinute, drop 1 cs)
      else if c = CHR ''0'' \<and> prefix ''5'' cs then (stdZeroSecond, drop 1 cs)
      else if c = CHR ''0'' \<and> prefix ''6'' cs then (stdYear, drop 1 cs)
      else if c = CHR ''1'' \<and> prefix ''5'' cs then (stdHour, drop 1 cs)
      else if c = CHR ''1'' then (stdNumMonth, cs)
      else if c = CHR ''2'' \<and> prefix ''006'' cs then (stdLongYear, drop 3 cs)
      else if c = CHR ''2'' then (stdDay, cs)
      else if c = CHR ''3'' then (stdHour12, cs)
      else if c = CHR ''4'' then (stdMinute, cs)
      else if c = CHR ''5'' then (stdSecond, cs)
      else (stdLiteral c, cs))"

definition hour12 :: "nat \<Rightarrow> nat" where
  "hour12 h = (if h mod 12 = 0 then 12 else h mod 12)"

fun appendStd :: "Time \<Rightarrow> std \<Rightarrow> string" where
  "appendStd t stdLongYear = appendInt (Year t) 4"
| "appendStd t stdYear = appendInt (\<bar>Year t\<bar> mod 100) 2"
| "appendStd t stdZeroMonth = appendInt (int (Month t)) 2"
| "appendStd t stdNumMonth = appendInt (int (Month t)) 0"
| "appendStd t stdZeroDay = appendInt (int (Day t)) 2"
| "appendStd t stdDay = appendInt (int (Day t)) 0"
| "appendStd t stdHour = appendInt (int (Hour t)) 2"
| "appendStd t stdZeroHour12 = appendInt (int (hour12 (Hour t))) 2"
| "appendStd t stdHour12 = appendInt (int (hour12 (Hour t))) 0"
| "appendStd t stdZeroMinute = appendInt (int (Minute t)) 2"
| "appendStd t stdMinute = appendInt (int (Minute t)) 0"
| "appendStd t stdZeroSecond = appendInt (int (Second t)) 2"
| "appendStd t stdSecond = appendInt (int (Second t)) 0"
| "appendStd t (stdLiteral c) = [c]"

function Format :: "Time \<Rightarrow> string \<Rightarrow> string" where
  "Format t [] = []"
| "Format t (c # cs) = appendStd t (fst (nextStdChunk c cs)) @ Format t (snd (nextStdChunk c cs))"
  by pat_completeness auto
termination
  by (relation "measure (\<lambda>(t, layout). length layout)") (auto simp: nextStdChunk_def)

declare Format.simps [simp del]

subsection \<open>Package os: environment, files and standard input\<close>

text \<open>
  The process environment maps a variable to its value when it is set; \<open>os.Getenv\<close>
  returns the empty string for a variable that is not set.
\<close>

type_synonym environ = "string \<Rightarrow> string option"

definition os_Getenv :: "environ \<Rightarrow> string \<Rightarrow> string" where
  "os_Getenv env key = (case env key of None \<Rightarrow> [] | Some v \<Rightarrow> v)"

text \<open>
  The file system is given by what \<open>os.ReadFile\<close> returns for each path (an error for
  a file that is missing or cannot be read), by the outcome of \<open>os.MkdirAll\<close> and
  \<open>os.WriteFile\<close> for each path, and by \<open>filepath.Dir\<close>.  A write that succeeds
  makes the path read back the bytes written.
\<close>

record filesystem =
  ReadFile :: "string \<Rightarrow> error + string"
  MkdirAll_err :: "string \<Rightarrow> error option"
  WriteFile_err :: "string \<Rightarrow> error option"
  filepath_Dir :: "string \<Rightarrow> string"



text \<open>
  Standard input: \<open>os.Stdin.Stat()\<close> fails (the descriptor is closed) or tells whether
  the character-device bit of the mode is set (a terminal); \<open>io.ReadAll(os.Stdin)\<close>
  returns the bytes read and the error that stopped the reading, if any.
\<close>

record Stdin =
  Stat :: "error + bool"
  ReadAll :: "string \<times> error option"

subsection \<open>Package encoding/json\<close>

text \<open>
  The values the program marshals are strings, booleans and objects of them.  The
  library itself is not part of the repository and is a parameter of the model.
  \<open>json.Unmarshal\<close> into a struct whose fields are all strings first checks that the
  text is well-formed and returns a syntax error without touching the destination when
  it is not; otherwise it assigns, for some of the field tags, the string found for that
  tag, leaves the other fields as they were, and may still report an error (a value of
  the wrong type).  \<open>Decoded f e\<close> is that second outcome: \<open>f tag\<close> is the string
  assigned to the field with that tag, if one is assigned.
\<close>

datatype json = JString string | JBool bool | JObject "(string \<times> json) list"

datatype json_decoded =
    SyntaxError error
  | Decoded "string \<Rightarrow> string option" "error option"

record encoding_json =
  json_Marshal :: "json \<Rightarrow> error + string"
  json_MarshalIndent :: "json \<Rightarrow> string \<Rightarrow> string \<Rightarrow> error + string"
  json_Unmarshal :: "string \<Rightarrow> json_decoded"

definition assign :: "(string \<Rightarrow> string option) \<Rightarrow> string \<Rightarrow> string \<Rightarrow> string" where
  "assign f tag old = (case f tag of None \<Rightarrow> old | Some v \<Rightarrow> v)"

subsection \<open>Package net/http\<close>

text \<open>
  A request is built by \<open>http.NewRequest\<close>, which fails when the URL does not parse.
  The transport answers a request with an error or with a response; the body of a
  response is what \<open>io.ReadAll(resp.Body)\<close> returns: the bytes read and the error
  that stopped the reading, if any.  Every function that calls the transport also
  returns what it sent.  Header names are kept as the source writes them
  (\<open>Header.Set\<close> stores them in canonical capitals, which a server reads without
  regard to case); setting a header replaces its earlier value.
\<close>

record Request =
  Method :: string
  URL :: string
  Header :: "(string \<times> string) list"
  ReqBody :: string

record Response =
  StatusCode :: int
  Body :: string
  BodyErr :: "error option"

datatype sent = Sent Request | SentForm string "(string \<times> string list) list"

record net_http =
  url_Parse_err :: "string \<Rightarrow> error option"
  http_Do :: "Request \<Rightarrow> error + Response"
  http_PostForm :: "string \<Rightarrow> (string \<times> string list) list \<Rightarrow> error + Response"

definition http_NewRequest :: "net_http \<Rightarrow> string \<Rightarrow> string \<Rightarrow> string \<Rightarrow> error + Request" where
  "http_NewRequest net method url body =
     (case url_Parse_err net url of
        Some err \<Rightarrow> Inl err
      | None \<Rightarrow> Inr \<lparr>Method = method, URL = url, Header = [], ReqBody = body\<rparr>)"

definition Header_Set :: "Request \<Rightarrow> string \<Rightarrow> string \<Rightarrow> Request" where
  "Header_Set req key v =
     req\<lparr>Header := (key, v) # filter (\<lambda>kv. fst kv \<noteq> key) (Header req)\<rparr>"

definition Header_Get :: "Request \<Rightarrow> string \<Rightarrow> string" where
  "Header_Get req key = (case map_of (Header req) key of None \<Rightarrow> [] | Some v \<Rightarrow> v)"

section \<open>main.go: the entry formatter, the input reader and the combiner\<close>

text \<open>
  \<open>fmt.Sprintf\<close> with a constant format whose verbs are all \<open>%s\<close> applied to strings
  is the concatenation of the format's literal pieces and the arguments.
\<close>

definition resolvePath :: "Time \<Rightarrow> string" where
  "resolvePath now =
     ''/Notes/Journal/'' @ Format now ''2006'' @ ''/'' @ Format now ''01''
     @ ''/Note'' @ Format now ''20060102'' @ ''.md''"

definition formatEntry :: "Time \<Rightarrow> string \<Rightarrow> bool \<Rightarrow> string" where
  "formatEntry now text noTimestamp =
     (if noTimestamp then text @ ''\<newline>''
      else ''### '' @ Format now ''15:04:05'' @ ''\<newline>'' @ text @ ''\<newline>'')"

definition appendContent :: "string \<Rightarrow> string \<Rightarrow> string" where
  "appendContent existing entry =
     (if existing = [] then entry else existing @ ''\<newline>'' @ entry)"

text \<open>
  \<open>readInput\<close> discards the error of \<open>os.Stdin.Stat()\<close> and calls \<open>Mode()\<close> on
  the result, which is nil when \<open>Stat\<close> failed: a nil dereference.
\<close>

definition no_input :: error where
  "no_input = Error ''no input provided: pass text as argument or via stdin'' None"

definition readInput :: "Stdin \<Rightarrow> string list \<Rightarrow> (error + string) outcome" where
  "readInput stdin args =
     (if length args > 0 then Return (Inr (strings_Join args '' ''))
      else
        (case Stat stdin of
           Inl _ \<Rightarrow> Panic ''runtime error: invalid memory address or nil pointer dereference''
         | Inr charDevice \<Rightarrow>
             if \<not> charDevice then
               (case ReadAll stdin of
                  (data, Some err) \<Rightarrow>
                    Return (Inl (Error (''reading stdin: '' @ err_msg err) (Some err)))
                | (data, None) \<Rightarrow>
                    (let text = strings_TrimSpace data
                     in if text \<noteq> [] then Return (Inr text) else Return (Inl no_input)))
             else Return (Inl no_input)))"

section \<open>config.go: the credential file\<close>

record Config =
  AppKey :: string
  AppSecret :: string
  RefreshToken :: string

definition Config_zero :: Config where
  "Config_zero = \<lparr>AppKey = [], AppSecret = [], RefreshToken = []\<rparr>"


definition Unmarshal_Config :: "encoding_json \<Rightarrow> string \<Rightarrow> Config \<Rightarrow> error option \<times> Config" where
  "Unmarshal_Config js data cfg =
     (case json_Unmarshal js data of
        SyntaxError err \<Rightarrow> (Some err, cfg)
      | Decoded f err \<Rightarrow>
          (err, \<lparr>AppKey = assign f ''app_key'' (AppKey cfg),
                 AppSecret = assign f ''app_secret'' (AppSecret cfg),
                 RefreshToken = assign f ''refresh_token'' (RefreshToken cfg)\<rparr>))"

definition loadConfig :: "environ \<Rightarrow> encoding_json \<Rightarrow> filesystem \<Rightarrow> string \<Rightarrow> Config \<times> error option" where
  "loadConfig env js fs path =
     (let cfg0 = Config_zero;
          cfg1 = (case ReadFile fs path of
                    Inl _ \<Rightarrow> cfg0
                  | Inr data \<Rightarrow> snd (Unmarshal_Config js data cfg0));
          cfg2 = (let v = os_Getenv env ''DROPBOX_APP_KEY''
                  in if v \<noteq> [] then cfg1\<lparr>AppKey := v\<rparr> else cfg1);
          cfg3 = (let v = os_Getenv env ''DROPBOX_APP_SECRET''
                  in if v \<noteq> [] then cfg2\<lparr>AppSecret := v\<rparr> else cfg2);
          cfg4 = (let v = os_Getenv env ''DROPBOX_REFRESH_TOKEN''
                  in if v \<noteq> [] then cfg3\<lparr>RefreshToken := v\<rparr> else cfg3)
      in (cfg4, None))"


section \<open>auth.go: the token endpoint\<close>

definition defaultTokenURL :: string where
  "defaultTokenURL = ''https://api.dropboxapi.com/oauth2/token''"

record tokenResponse =
  AccessToken :: string
  tr_RefreshToken :: string
  TokenType :: string

definition Unmarshal_tokenResponse ::
  "encoding_json \<Rightarrow> string \<Rightarrow> tokenResponse \<Rightarrow> error option \<times> tokenResponse" where
  "Unmarshal_tokenResponse js data r =
     (case json_Unmarshal js data of
        SyntaxError err \<Rightarrow> (Some err, r)
      | Decoded f err \<Rightarrow>
          (err, \<lparr>AccessToken = assign f ''access_token'' (AccessToken r),
                 tr_RefreshToken = assign f ''refresh_token'' (tr_RefreshToken r),
                 TokenType = assign f ''token_type'' (TokenType r)\<rparr>))"

definition refreshAccessToken ::
  "encoding_json \<Rightarrow> net_http \<Rightarrow> string \<Rightarrow> string \<Rightarrow> string \<Rightarrow> string
     \<Rightarrow> sent list \<times> (error + string)" where
  "refreshAccessToken js net tokenURL appKey appSecret refreshToken =
     (let data = [(''grant_type'', [''refresh_token'']), (''refresh_token'', [refreshToken]),
                  (''client_id'', [appKey]), (''client_secret'', [appSecret])];
          log = [SentForm tokenURL data]
      in case http_PostForm net tokenURL data of
           Inl err \<Rightarrow> (log, Inl (Error (''refresh request: '' @ err_msg err) (Some err)))
         | Inr resp \<Rightarrow>
             (case BodyErr resp of
                Some err \<Rightarrow> (log, Inl (Error (''reading response: '' @ err_msg err) (Some err)))
              | None \<Rightarrow>
                  if StatusCode resp \<noteq> 200 then
                    (log, Inl (Error (''token refresh failed (status '' @ itoa (StatusCode resp)
                                       @ ''): '' @ strings_TrimSpace (Body resp)) None))
                  else
                    (case Unmarshal_tokenResponse js (Body resp)
                            \<lparr>AccessToken = [], tr_RefreshToken = [], TokenType = []\<rparr> of
                       (Some err, _) \<Rightarrow>
                         (log, Inl (Error (''parsing response: '' @ err_msg err) (Some err)))
                     | (None, result) \<Rightarrow> (log, Inr (AccessToken result)))))"

section \<open>dropbox.go: the storage client\<close>

definition defaultBaseURL :: string where
  "defaultBaseURL = ''https://content.dropboxapi.com''"

record DropboxClient =
  Token :: string
  BaseURL :: string

definition baseURL :: "DropboxClient \<Rightarrow> string" where
  "baseURL c = (if BaseURL c \<noteq> [] then BaseURL c else defaultBaseURL)"

text \<open>Both callers of \<open>json.Marshal\<close> discard its error and use the bytes, nil on error.\<close>

definition Marshal_arg :: "encoding_json \<Rightarrow> json \<Rightarrow> string" where
  "Marshal_arg js v = (case json_Marshal js v of Inl _ \<Rightarrow> [] | Inr bytes \<Rightarrow> bytes)"

text \<open>The field \<open>ErrorSummary\<close> of the anonymous struct after \<open>json.Unmarshal(body, &apiErr)\<close>,
  whose error is discarded.\<close>

definition apiErr_ErrorSummary :: "encoding_json \<Rightarrow> string \<Rightarrow> string" where
  "apiErr_ErrorSummary js body =
     (case json_Unmarshal js body of
        SyntaxError _ \<Rightarrow> []
      | Decoded f _ \<Rightarrow> assign f ''error_summary'' [])"

definition Download ::
  "encoding_json \<Rightarrow> net_http \<Rightarrow> DropboxClient \<Rightarrow> string \<Rightarrow> sent list \<times> (error + string)" where
  "Download js net c path =
     (let arg = Marshal_arg js (JObject [(''path'', JString path)])
      in case http_NewRequest net ''POST'' (baseURL c @ ''/2/files/download'') [] of
           Inl err \<Rightarrow> ([], Inl (Error (''creating request: '' @ err_msg err) (Some err)))
         | Inr req0 \<Rightarrow>
             (let req1 = Header_Set req0 ''Authorization'' (''Bearer '' @ Token c);
                  req = Header_Set req1 ''Dropbox-API-Arg'' arg
              in case http_Do net req of
                   Inl err \<Rightarrow>
                     ([Sent req], Inl (Error (''download request: '' @ err_msg err) (Some err)))
                 | Inr resp \<Rightarrow>
                     (case BodyErr resp of
                        Some err \<Rightarrow>
                          ([Sent req],
                           Inl (Error (''reading response: '' @ err_msg err) (Some err)))
                      | None \<Rightarrow>
                          if StatusCode resp = 409 then
                            (let summary = apiErr_ErrorSummary js (Body resp)
                             in if strings_Contains summary ''not_found''
                                then ([Sent req], Inr [])
                                else ([Sent req],
                                      Inl (Error (''dropbox API error: '' @ summary) None)))
                          else if StatusCode resp \<noteq> 200 then
                            ([Sent req],
                             Inl (Error (''dropbox API error (status '' @ itoa (StatusCode resp)
                                          @ ''): '' @ Body resp) None))
                          else ([Sent req], Inr (Body resp)))))"

definition Upload ::
  "encoding_json \<Rightarrow> net_http \<Rightarrow> DropboxClient \<Rightarrow> string \<Rightarrow> string \<Rightarrow> sent list \<times> error option" where
  "Upload js net c path content =
     (let arg = Marshal_arg js (JObject [(''path'', JString path),
                                         (''mode'', JString ''overwrite''),
                                         (''mute'', JBool True)])
      in case http_NewRequest net ''POST'' (baseURL c @ ''/2/files/upload'') content of
           Inl err \<Rightarrow> ([], Some (Error (''creating request: '' @ err_msg err) (Some err)))
         | Inr req0 \<Rightarrow>
             (let req1 = Header_Set req0 ''Authorization'' (''Bearer '' @ Token c);
                  req2 = Header_Set req1 ''Dropbox-API-Arg'' arg;
                  req = Header_Set req2 ''Content-Type'' ''application/octet-stream''
              in case http_Do net req of
                   Inl err \<Rightarrow>
                     ([Sent req], Some (Error (''upload request: '' @ err_msg err) (Some err)))
                 | Inr resp \<Rightarrow>
                     if StatusCode resp \<noteq> 200 then
                       ([Sent req],
                        Some (Error (''dropbox API error (status '' @ itoa (StatusCode resp)
                                      @ ''): '' @ Body resp) None))
                     else ([Sent req], None)))"

section \<open>main.go: the token resolver and the append flow\<close>

definition resolveToken ::
  "environ \<Rightarrow> encoding_json \<Rightarrow> net_http \<Rightarrow> Config \<Rightarrow> sent list \<times> (error + string)" where
  "resolveToken env js net cfg =
     (let token = os_Getenv env ''DROPBOX_TOKEN''
      in if token \<noteq> [] then ([], Inr token)
         else if RefreshToken cfg \<noteq> [] \<and> AppKey cfg \<noteq> [] \<and> AppSecret cfg \<noteq> [] then
           (case refreshAccessToken js net defaultTokenURL (AppKey cfg) (AppSecret cfg)
                   (RefreshToken cfg) of
              (log, Inl err) \<Rightarrow>
                (log, Inl (Error (''refresh token invalid, run: dropbox-appender auth\<newline>  (''
                                   @ err_msg err @ '')'') (Some err)))
            | (log, Inr token) \<Rightarrow> (log, Inr token))
         else ([], Inl (Error ''no authentication configured, run: dropbox-appender auth'' None)))"

text \<open>
  The append flow is what \<open>main\<close> does when its first argument is not \<open>auth\<close>,
  from \<open>flag.Parse()\<close> on.  The world of one run: the environment, the files, standard
  input, the clock, the network, the JSON library, the path \<open>defaultConfigPath()\<close>
  returns, the value of the flag \<open>-no-timestamp\<close> and the arguments left after the
  flags.  A run ends with an exit code and what it printed, or with a panic.
\<close>

record world =
  os_Environ :: environ
  os_Files :: filesystem
  os_Stdin :: Stdin
  time_Now :: Time
  network :: net_http
  json_lib :: encoding_json
  defaultConfigPath :: string
  flag_noTimestamp :: bool
  flag_Args :: "string list"

record exit =
  exit_code :: int
  stdout :: string
  stderr :: string

definition os_Exit1 :: "string \<Rightarrow> exit outcome" where
  "os_Exit1 message = Return \<lparr>exit_code = 1, stdout = [], stderr = message\<rparr>"

definition main_append :: "world \<Rightarrow> sent list \<times> exit outcome" where
  "main_append w =
     (let env = os_Environ w; js = json_lib w
      in case loadConfig env js (os_Files w) (defaultConfigPath w) of
           (cfg, Some err) \<Rightarrow>
             ([], os_Exit1 (''error loading config: '' @ err_msg err @ ''\<newline>''))
         | (cfg, None) \<Rightarrow>
             (case resolveToken env js (network w) cfg of
                (log1, Inl err) \<Rightarrow> (log1, os_Exit1 (err_msg err @ ''\<newline>''))
              | (log1, Inr token) \<Rightarrow>
                  (case readInput (os_Stdin w) (flag_Args w) of
                     Panic reason \<Rightarrow> (log1, Panic reason)
                   | Return (Inl err) \<Rightarrow> (log1, os_Exit1 (err_msg err @ ''\<newline>''))
                   | Return (Inr input) \<Rightarrow>
                       (let now = time_Now w;
                            path = resolvePath now;
                            entry = formatEntry now input (flag_noTimestamp w);
                            client = \<lparr>Token = token, BaseURL = []\<rparr>
                        in case Download js (network w) client path of
                             (log2, Inl err) \<Rightarrow>
                               (log1 @ log2,
                                os_Exit1 (''error downloading: '' @ err_msg err @ ''\<newline>''))
                           | (log2, Inr existing) \<Rightarrow>
                               (let newContent = appendContent existing entry
                                in case Upload js (network w) client path newContent of
                                     (log3, Some err) \<Rightarrow>
                                       (log1 @ log2 @ log3,
                                        os_Exit1 (''error uploading: '' @ err_msg err
                                                  @ ''\<newline>''))
                                   | (log3, None) \<Rightarrow>
                                       (log1 @ log2 @ log3,
                                        Return \<lparr>exit_code = 0,
                                                 stdout = ''Appended to '' @ path @ ''\<newline>'',
                                                 stderr = []\<rparr>))))))"

section \<open>What the specification says, in its own words\<close>

text \<open>A number below 100 as two digits and a number below 10000 as four, zeros in front.\<close>

definition two_digits :: "nat \<Rightarrow> string" where
  "two_digits n = [digit (n div 10), digit (n mod 10)]"

definition four_digits :: "nat \<Rightarrow> string" where
  "four_digits n =
     [digit (n div 1000), digit (n div 100 mod 10), digit (n div 10 mod 10), digit (n mod 10)]"

text \<open>The template \<open>/Notes/Journal/{YYYY}/{MM}/Note{YYYYMMDD}.md\<close>.\<close>

definition journal_path :: "nat \<Rightarrow> nat \<Rightarrow> nat \<Rightarrow> string" where
  "journal_path y m d =
     ''/Notes/Journal/'' @ four_digits y @ ''/'' @ two_digits m
     @ ''/Note'' @ four_digits y @ two_digits m @ two_digits d @ ''.md''"

text \<open>The rendering \<open>HH:MM:SS\<close> of a time, on the 24-hour clock.\<close>

definition HHMMSS :: "Time \<Rightarrow> string" where
  "HHMMSS t = two_digits (Hour t) @ '':'' @ two_digits (Minute t) @ '':'' @ two_digits (Second t)"

text \<open>The bodies of the requests a run sent to the upload endpoint, in order.\<close>

definition uploads :: "sent list \<Rightarrow> string list" where
  "uploads log =
     concat (map (\<lambda>s. case s of
                           Sent req \<Rightarrow>
                             if URL req = defaultBaseURL @ ''/2/files/upload'' then [ReqBody req]
                             else []
                         | SentForm _ _ \<Rightarrow> []) log)"

text \<open>An environment variable is set and non-empty.\<close>

definition set_nonempty :: "environ \<Rightarrow> string \<Rightarrow> bool" where
  "set_nonempty env key = (case env key of None \<Rightarrow> False | Some v \<Rightarrow> v \<noteq> [])"


text \<open>
  What the file at a path gives for the field with a tag: nothing (the empty string)
  when the file cannot be read or is not well-formed JSON; otherwise the string the JSON
  library decodes for the tag, and nothing when it decodes none.
\<close>

definition file_value :: "encoding_json \<Rightarrow> filesystem \<Rightarrow> string \<Rightarrow> string \<Rightarrow> string" where
  "file_value js fs path tag =
     (case ReadFile fs path of
        Inl _ \<Rightarrow> []
      | Inr data \<Rightarrow>
          (case json_Unmarshal js data of
             SyntaxError _ \<Rightarrow> []
           | Decoded f _ \<Rightarrow> (case f tag of None \<Rightarrow> [] | Some v \<Rightarrow> v)))"

section \<open>A small platform for running the model on examples\<close>

text \<open>
  The theorems below hold for every JSON library, file system and network.  To run the
  model on an example one of each is needed.  The JSON library here writes objects of
  strings and booleans the way \<open>encoding/json\<close> does for printable ASCII text (members
  in key order, only the quote and the backslash escaped; Go writes a map in key order
  and a struct in field order, and the fields of \<open>Config\<close> are in key order) and reads
  objects whose members are strings or whole numbers.  A number is a value of the wrong
  type for a string field: as \<open>encoding/json\<close> does, the library skips that member,
  goes on with the others and reports an error.  Every other text is a syntax error to it.
\<close>

definition json_quote :: "string \<Rightarrow> string" where
  "json_quote s =
     [CHR 0x22]
     @ concat (map (\<lambda>c. if c = CHR 0x22 \<or> c = CHR 0x5C then [CHR 0x5C, c] else [c]) s)
     @ [CHR 0x22]"

fun bytes_less :: "string \<Rightarrow> string \<Rightarrow> bool" where
  "bytes_less [] [] = False"
| "bytes_less [] (y # ys) = True"
| "bytes_less (x # xs) [] = False"
| "bytes_less (x # xs) (y # ys) =
     ((of_char x :: nat) < of_char y \<or> (x = y \<and> bytes_less xs ys))"

fun insert_member :: "string \<times> json \<Rightarrow> (string \<times> json) list \<Rightarrow> (string \<times> json) list" where
  "insert_member m [] = [m]"
| "insert_member m (m' # ms) =
     (if bytes_less (fst m') (fst m) then m' # insert_member m ms else m # m' # ms)"

definition sort_members :: "(string \<times> json) list \<Rightarrow> (string \<times> json) list" where
  "sort_members ms = foldr insert_member ms []"

fun scalar_text :: "json \<Rightarrow> string option" where
  "scalar_text (JString s) = Some (json_quote s)"
| "scalar_text (JBool b) = Some (if b then ''true'' else ''false'')"
| "scalar_text (JObject _) = None"

definition member_texts :: "string \<Rightarrow> (string \<times> json) list \<Rightarrow> string list option" where
  "member_texts colon ms =
     (if list_all (\<lambda>m. scalar_text (snd m) \<noteq> None) ms
      then Some (map (\<lambda>m. json_quote (fst m) @ colon @ the (scalar_text (snd m))) ms)
      else None)"

definition unsupported :: error where
  "unsupported = Error ''json: unsupported value'' None"

definition small_Marshal :: "json \<Rightarrow> error + string" where
  "small_Marshal v =
     (case v of
        JObject ms \<Rightarrow>
          (case member_texts '':'' (sort_members ms) of
             None \<Rightarrow> Inl unsupported
           | Some ts \<Rightarrow> Inr (''{'' @ strings_Join ts '','' @ ''}''))
      | _ \<Rightarrow> (case scalar_text v of None \<Rightarrow> Inl unsupported | Some t \<Rightarrow> Inr t))"

definition small_MarshalIndent :: "json \<Rightarrow> string \<Rightarrow> string \<Rightarrow> error + string" where
  "small_MarshalIndent v pre indent =
     (case v of
        JObject ms \<Rightarrow>
          (case member_texts '': '' (sort_members ms) of
             None \<Rightarrow> Inl unsupported
           | Some ts \<Rightarrow>
               if ts = [] then Inr ''{}''
               else Inr (''{'' @ ''\<newline>'' @ pre @ indent
                         @ strings_Join ts ('','' @ ''\<newline>'' @ pre @ indent)
                         @ ''\<newline>'' @ pre @ ''}''))
      | _ \<Rightarrow> (case scalar_text v of None \<Rightarrow> Inl unsupported | Some t \<Rightarrow> Inr t))"

datatype scan =
    Start | KeyOrEnd | InKey string | InKeyEsc string | AfterKey string
  | BeforeValue string | InValue string string | InValueEsc string string
  | AfterMinus | AfterZero | InDigits
  | AfterValue | BeforeKey | Done | Bad

definition json_space :: "char \<Rightarrow> bool" where
  "json_space c = (c = CHR 0x20 \<or> c = CHR 0x09 \<or> c = CHR 0x0A \<or> c = CHR 0x0D)"

definition unescape :: "char \<Rightarrow> char option" where
  "unescape c =
     (if c = CHR 0x22 \<or> c = CHR 0x5C \<or> c = CHR ''/'' then Some c
      else if c = CHR ''n'' then Some (CHR 0x0A)
      else if c = CHR ''t'' then Some (CHR 0x09)
      else if c = CHR ''r'' then Some (CHR 0x0D)
      else None)"

text \<open>
  The scanner keeps the string members read so far, latest first, and whether a member
  of the wrong type (a number) was met.
\<close>

type_synonym scanned = "(string \<times> string) list \<times> bool"

definition after_number :: "scanned \<Rightarrow> char \<Rightarrow> scan \<times> scanned" where
  "after_number fs c =
     (if json_space c then (AfterValue, fs) else if c = CHR '','' then (BeforeKey, fs)
      else if c = CHR ''}'' then (Done, fs) else (Bad, fs))"

fun scan_step :: "scan \<times> scanned \<Rightarrow> char \<Rightarrow> scan \<times> scanned" where
  "scan_step (Start, fs) c =
     (if json_space c then (Start, fs) else if c = CHR ''{'' then (KeyOrEnd, fs) else (Bad, fs))"
| "scan_step (KeyOrEnd, fs) c =
     (if json_space c then (KeyOrEnd, fs) else if c = CHR 0x22 then (InKey [], fs)
      else if c = CHR ''}'' then (Done, fs) else (Bad, fs))"
| "scan_step (InKey k, fs) c =
     (if c = CHR 0x22 then (AfterKey k, fs) else if c = CHR 0x5C then (InKeyEsc k, fs)
      else if (of_char c :: nat) < 32 then (Bad, fs) else (InKey (k @ [c]), fs))"
| "scan_step (InKeyEsc k, fs) c =
     (case unescape c of None \<Rightarrow> (Bad, fs) | Some u \<Rightarrow> (InKey (k @ [u]), fs))"
| "scan_step (AfterKey k, fs) c =
     (if json_space c then (AfterKey k, fs) else if c = CHR '':'' then (BeforeValue k, fs)
      else (Bad, fs))"
| "scan_step (BeforeValue k, fs) c =
     (if json_space c then (BeforeValue k, fs) else if c = CHR 0x22 then (InValue k [], fs)
      else if c = CHR ''-'' then (AfterMinus, (fst fs, True))
      else if c = CHR ''0'' then (AfterZero, (fst fs, True))
      else if c \<in> set ''123456789'' then (InDigits, (fst fs, True))
      else (Bad, fs))"
| "scan_step (InValue k v, fs) c =
     (if c = CHR 0x22 then (AfterValue, ((k, v) # fst fs, snd fs))
      else if c = CHR 0x5C then (InValueEsc k v, fs)
      else if (of_char c :: nat) < 32 then (Bad, fs) else (InValue k (v @ [c]), fs))"
| "scan_step (InValueEsc k v, fs) c =
     (case unescape c of None \<Rightarrow> (Bad, fs) | Some u \<Rightarrow> (InValue k (v @ [u]), fs))"
| "scan_step (AfterMinus, fs) c =
     (if c = CHR ''0'' then (AfterZero, fs)
      else if c \<in> set ''123456789'' then (InDigits, fs) else (Bad, fs))"
| "scan_step (AfterZero, fs) c = after_number fs c"
| "scan_step (InDigits, fs) c =
     (if c \<in> set ''0123456789'' then (InDigits, fs) else after_number fs c)"
| "scan_step (AfterValue, fs) c =
     (if json_space c then (AfterValue, fs) else if c = CHR '','' then (BeforeKey, fs)
      else if c = CHR ''}'' then (Done, fs) else (Bad, fs))"
| "scan_step (BeforeKey, fs) c =
     (if json_space c then (BeforeKey, fs) else if c = CHR 0x22 then (InKey [], fs) else (Bad, fs))"
| "scan_step (Done, fs) c = (if json_space c then (Done, fs) else (Bad, fs))"
| "scan_step (Bad, fs) c = (Bad, fs)"

definition wrong_type :: error where
  "wrong_type = Error ''json: cannot unmarshal number into Go struct field of type string'' None"

definition small_Unmarshal :: "string \<Rightarrow> json_decoded" where
  "small_Unmarshal data =
     (case foldl scan_step (Start, ([], False)) data of
        (Done, members, mistyped) \<Rightarrow>
          Decoded (map_of members) (if mistyped then Some wrong_type else None)
      | _ \<Rightarrow> SyntaxError (Error ''invalid character or unexpected end of JSON input'' None))"

definition small_json :: encoding_json where
  "small_json = \<lparr>json_Marshal = small_Marshal, json_MarshalIndent = small_MarshalIndent,
                  json_Unmarshal = small_Unmarshal\<rparr>"


text \<open>
  A file system holding the given files, on which creating directories and writing never
  fail; a network that answers every request with one response and every form with
  another; and a storage server that holds one journal document or none: it answers a
  download with the document, or with the not-found conflict, and accepts every upload.
\<close>

definition small_Dir :: "string \<Rightarrow> string" where
  "small_Dir path =
     (let dir = rev (drop 1 (dropWhile (\<lambda>c. c \<noteq> CHR ''/'') (rev path)))
      in if dir = [] then (if prefix ''/'' path then ''/'' else ''.'') else dir)"

definition small_files :: "(string \<times> string) list \<Rightarrow> filesystem" where
  "small_files files =
     \<lparr>ReadFile = (\<lambda>path. case map_of files path of
                               None \<Rightarrow> Inl (Error (''open '' @ path @ '': no such file or directory'') None)
                             | Some data \<Rightarrow> Inr data),
      MkdirAll_err = (\<lambda>_. None),
      WriteFile_err = (\<lambda>_. None),
      filepath_Dir = small_Dir\<rparr>"

definition canned_net :: "Response \<Rightarrow> Response \<Rightarrow> net_http" where
  "canned_net token_response response =
     \<lparr>url_Parse_err = (\<lambda>_. None),
      http_Do = (\<lambda>_. Inr response),
      http_PostForm = (\<lambda>_ _. Inr token_response)\<rparr>"

definition not_found_body :: string where
  \<open>not_found_body = ''{"error_summary": "path/not_found/"}''\<close>

definition fresh_token_body :: string where
  \<open>fresh_token_body = ''{"access_token":"fresh_token","token_type":"bearer"}''\<close>

definition test_config_file :: string where
  \<open>test_config_file =
     ''{"app_key":"file_key","app_secret":"file_secret","refresh_token":"file_refresh"}''\<close>

definition mistyped_config_file :: string where
  \<open>mistyped_config_file = ''{"app_key": 5, "app_secret": "s", "refresh_token": "r"}''\<close>


definition journal_server :: "string option \<Rightarrow> net_http" where
  "journal_server document =
     \<lparr>url_Parse_err = (\<lambda>_. None),
      http_Do = (\<lambda>req.
         if URL req = defaultBaseURL @ ''/2/files/download'' then
           (case document of
              None \<Rightarrow> Inr \<lparr>StatusCode = 409, Body = not_found_body, BodyErr = None\<rparr>
            | Some content \<Rightarrow> Inr \<lparr>StatusCode = 200, Body = content, BodyErr = None\<rparr>)
         else Inr \<lparr>StatusCode = 200, Body = ''{}'', BodyErr = None\<rparr>),
      http_PostForm = (\<lambda>_ _. Inr \<lparr>StatusCode = 200, Body = fresh_token_body, BodyErr = None\<rparr>)\<rparr>"

text \<open>
  Two runs of the append flow.  In the first the token comes from \<open>DROPBOX_TOKEN\<close>,
  the server holds no document and the note is given as an argument at 09:00:00.  In the
  second the credentials come from the config file, the access token from the token
  endpoint, the server holds the morning's note and the new note is piped in at 14:30:45.
\<close>

definition first_note_world :: world where
  "first_note_world =
     \<lparr>os_Environ = [''DROPBOX_TOKEN'' \<mapsto> ''test-token''],
      os_Files = small_files [],
      os_Stdin = \<lparr>Stat = Inr True, ReadAll = ([], None)\<rparr>,
      time_Now = \<lparr>Year = 2025, Month = 1, Day = 15, Hour = 9, Minute = 0, Second = 0\<rparr>,
      network = journal_server None,
      json_lib = small_json,
      defaultConfigPath = ''/home/u/.config/dropbox-appender/config.json'',
      flag_noTimestamp = False,
      flag_Args = [''first note of the day'']\<rparr>"

definition afternoon_world :: world where
  "afternoon_world =
     \<lparr>os_Environ = Map.empty,
      os_Files = small_files [(''/home/u/.config/dropbox-appender/config.json'', test_config_file)],
      os_Stdin = \<lparr>Stat = Inr False, ReadAll = (''afternoon note\<newline>'', None)\<rparr>,
      time_Now = \<lparr>Year = 2025, Month = 1, Day = 15, Hour = 14, Minute = 30, Second = 45\<rparr>,
      network = journal_server (Some ''### 10:00:00\<newline>morning note\<newline>''),
      json_lib = small_json,
      defaultConfigPath = ''/home/u/.config/dropbox-appender/config.json'',
      flag_noTimestamp = False,
      flag_Args = []\<rparr>"

section \<open>Formatting: digits, layouts, the path and the entry\<close>

lemma decimal_one: "n < 10 \<Longrightarrow> decimal n = [digit n]"
  by (subst decimal.simps) simp

lemma decimal_step: "\<not> n < 10 \<Longrightarrow> decimal n = decimal (n div 10) @ [digit (n mod 10)]"
  by (subst decimal.simps) simp

lemma digit_0: "digit 0 = CHR ''0''"
  by (simp add: digit_def)

lemma decimal_two: "10 \<le> n \<Longrightarrow> n < 100 \<Longrightarrow> decimal n = [digit (n div 10), digit (n mod 10)]"
  by (simp add: decimal_step decimal_one)

lemma decimal_three:
  "100 \<le> n \<Longrightarrow> n < 1000 \<Longrightarrow> decimal n = [digit (n div 100), digit (n div 10 mod 10), digit (n mod 10)]"
proof -
  assume a: "100 \<le> n" "n < 1000"
  then have "10 \<le> n div 10" "n div 10 < 100" by auto
  then have "decimal (n div 10) = [digit (n div 10 div 10), digit (n div 10 mod 10)]"
    by (rule decimal_two)
  moreover have "n div 10 div 10 = n div 100" by arith
  ultimately show ?thesis using a by (simp add: decimal_step)
qed

lemma decimal_four:
  "1000 \<le> n \<Longrightarrow> n < 10000 \<Longrightarrow>
   decimal n = [digit (n div 1000), digit (n div 100 mod 10), digit (n div 10 mod 10), digit (n mod 10)]"
proof -
  assume a: "1000 \<le> n" "n < 10000"
  then have "100 \<le> n div 10" "n div 10 < 1000" by auto
  then have "decimal (n div 10) =
      [digit (n div 10 div 100), digit (n div 10 div 10 mod 10), digit (n div 10 mod 10)]"
    by (rule decimal_three)
  moreover have "n div 10 div 100 = n div 1000" "n div 10 div 10 = n div 100" by arith+
  ultimately show ?thesis using a by (simp add: decimal_step)
qed

lemma replicate_small:
  "replicate (Suc 0) c = [c]" "replicate 2 c = [c, c]" "replicate 3 c = [c, c, c]"
  by (simp_all add: numeral_2_eq_2 numeral_3_eq_3)

lemma appendInt_two_digits: "n < 100 \<Longrightarrow> appendInt (int n) 2 = two_digits n"
proof (cases "n < 10")
  case True
  then show ?thesis
    by (simp add: appendInt_def two_digits_def decimal_one digit_0)
next
  case False
  assume "n < 100"
  with False show ?thesis
    by (simp add: appendInt_def two_digits_def decimal_two)
qed

lemma appendInt_four_digits:
  assumes "0 \<le> y" "y \<le> 9999"
  shows "appendInt y 4 = four_digits (nat y)"
proof -
  define n where "n = nat y"
  have n: "n < 10000" and y: "\<bar>y\<bar> = int n" "\<not> y < 0" using assms by (auto simp: n_def)
  consider "n < 10" | "10 \<le> n" "n < 100" | "100 \<le> n" "n < 1000" | "1000 \<le> n" by linarith
  then have "replicate (4 - length (decimal n)) (CHR ''0'') @ decimal n = four_digits n"
  proof cases
    case 1
    then show ?thesis by (simp add: decimal_one four_digits_def digit_0 replicate_small)
  next
    case 2
    then show ?thesis by (simp add: decimal_two four_digits_def digit_0 replicate_small)
  next
    case 3
    then show ?thesis by (simp add: decimal_three four_digits_def digit_0 replicate_small)
  next
    case 4
    with n show ?thesis by (simp add: decimal_four four_digits_def)
  qed
  then show ?thesis using y by (simp add: appendInt_def n_def[symmetric])
qed

lemma Format_clock: "Format t ''15:04:05'' = appendInt (int (Hour t)) 2 @ '':'' @ appendInt (int (Minute t)) 2 @ '':'' @ appendInt (int (Second t)) 2"
  by (simp add: Format.simps nextStdChunk_def)

lemma Format_year: "Format t ''2006'' = appendInt (Year t) 4"
  by (simp add: Format.simps nextStdChunk_def)

lemma Format_month: "Format t ''01'' = appendInt (int (Month t)) 2"
  by (simp add: Format.simps nextStdChunk_def)

lemma Format_date: "Format t ''20060102'' = appendInt (Year t) 4 @ appendInt (int (Month t)) 2 @ appendInt (int (Day t)) 2"
  by (simp add: Format.simps nextStdChunk_def)

text \<open>
  C9: with the timestamp suppressed the entry is the text and a line feed; otherwise it is
  \<open>### \<close>, the time of day as \<open>HH:MM:SS\<close> (two digits each, zero-padded, the hour
  on the 24-hour clock), a line feed, the text and a line feed.  The fields of the time
  are in the ranges Go keeps them in.
\<close>

theorem formatEntry_spec:
  "formatEntry t text True = text @ ''\<newline>''
   \<and> (valid_Time t \<longrightarrow>
        formatEntry t text False = ''### '' @ HHMMSS t @ ''\<newline>'' @ text @ ''\<newline>''
        \<and> length (HHMMSS t) = 8)"
  by (simp add: formatEntry_def HHMMSS_def Format_clock valid_Time_def appendInt_two_digits
      two_digits_def)

theorem formatEntry_spec_witness:
  "valid_Time \<lparr>Year = 2025, Month = 1, Day = 15, Hour = 14, Minute = 30, Second = 45\<rparr>
   \<and> formatEntry \<lparr>Year = 2025, Month = 1, Day = 15, Hour = 14, Minute = 30, Second = 45\<rparr> ''X'' False
       = ''### 14:30:45\<newline>X\<newline>''
   \<and> formatEntry \<lparr>Year = 2025, Month = 1, Day = 15, Hour = 14, Minute = 30, Second = 45\<rparr> ''X'' True
       = ''X\<newline>''"
  using formatEntry_spec [of "\<lparr>Year = 2025, Month = 1, Day = 15, Hour = 14, Minute = 30, Second = 45\<rparr>" "''X''"]
  by (simp add: valid_Time_def HHMMSS_def two_digits_def digit_def)

text \<open>
  C8, as amended: for every time whose year is between 0 and 9999 the path is
  \<open>/Notes/Journal/{YYYY}/{MM}/Note{YYYYMMDD}.md\<close> with the year in four digits and
  month and day in two, zero-padded; 2025-01-15 and 2025-12-03 give the two paths of
  the specification.
\<close>

theorem resolvePath_template:
  "(valid_Time t \<and> 0 \<le> Year t \<and> Year t \<le> 9999 \<longrightarrow>
      resolvePath t = journal_path (nat (Year t)) (Month t) (Day t))
   \<and> resolvePath \<lparr>Year = 2025, Month = 1, Day = 15, Hour = h, Minute = mi, Second = s\<rparr>
       = ''/Notes/Journal/2025/01/Note20250115.md''
   \<and> resolvePath \<lparr>Year = 2025, Month = 12, Day = 3, Hour = h, Minute = mi, Second = s\<rparr>
       = ''/Notes/Journal/2025/12/Note20251203.md''"
proof -
  have general: "resolvePath u = journal_path (nat (Year u)) (Month u) (Day u)"
    if "Month u < 100" "Day u < 100" "0 \<le> Year u" "Year u \<le> 9999" for u
    using that
    by (simp add: resolvePath_def journal_path_def Format_year Format_month Format_date
        appendInt_two_digits appendInt_four_digits)
  have january: "journal_path 2025 1 15 = ''/Notes/Journal/2025/01/Note20250115.md''"
    by (simp add: journal_path_def four_digits_def two_digits_def digit_def)
  have december: "journal_path 2025 12 3 = ''/Notes/Journal/2025/12/Note20251203.md''"
    by (simp add: journal_path_def four_digits_def two_digits_def digit_def)
  show ?thesis
    using general [of t]
      general [of "\<lparr>Year = 2025, Month = 1, Day = 15, Hour = h, Minute = mi, Second = s\<rparr>"]
      general [of "\<lparr>Year = 2025, Month = 12, Day = 3, Hour = h, Minute = mi, Second = s\<rparr>"]
      january december
    by (simp add: valid_Time_def)
qed

theorem resolvePath_template_witness:
  "valid_Time \<lparr>Year = 2025, Month = 1, Day = 15, Hour = 14, Minute = 30, Second = 0\<rparr>
   \<and> resolvePath \<lparr>Year = 2025, Month = 1, Day = 15, Hour = 14, Minute = 30, Second = 0\<rparr>
       = journal_path 2025 1 15
   \<and> journal_path 2025 1 15 = ''/Notes/Journal/2025/01/Note20250115.md''"
  using resolvePath_template
    [of "\<lparr>Year = 2025, Month = 1, Day = 15, Hour = 14, Minute = 30, Second = 0\<rparr>" 14 30 0]
  by (simp add: valid_Time_def journal_path_def four_digits_def two_digits_def digit_def)

lemma journal_path_length: "length (journal_path y m d) = 38"
  by (simp add: journal_path_def four_digits_def two_digits_def)

text \<open>
  C8 as stated fails for a year of five digits: the year 10000 gives a five-digit
  directory and a nine-digit date, 40 bytes where the template has 38.
\<close>

theorem resolvePath_year_10000:
  "valid_Time \<lparr>Year = 10000, Month = 1, Day = 1, Hour = 0, Minute = 0, Second = 0\<rparr>
   \<and> resolvePath \<lparr>Year = 10000, Month = 1, Day = 1, Hour = 0, Minute = 0, Second = 0\<rparr>
       = ''/Notes/Journal/10000/01/Note100000101.md''
   \<and> length (resolvePath \<lparr>Year = 10000, Month = 1, Day = 1, Hour = 0, Minute = 0, Second = 0\<rparr>) = 40"
  by (simp add: valid_Time_def resolvePath_def Format_year Format_month Format_date
      appendInt_def decimal.simps digit_def Let_def)

lemma formatEntry_newline: "suffix ''\<newline>'' (formatEntry t text noTimestamp)"
  by (simp add: formatEntry_def suffix_def)

lemma appendContent_suffix: "suffix entry (appendContent existing entry)"
  by (simp add: appendContent_def suffix_def)

section \<open>The input reader\<close>

lemma strings_Contains_sublist: "strings_Contains s sub = sublist sub s"
proof (induction s)
  case Nil
  then show ?case by simp
next
  case (Cons c cs)
  then show ?case by (simp add: sublist_Cons_right)
qed

text \<open>
  C7, as amended: when arguments are given the input is the arguments joined by single
  spaces and standard input is not looked at.  With no argument and a standard input
  that is not a terminal, the input is read in full: if reading fails, \<open>readInput\<close>
  fails with an error \<open>reading stdin\<close> that wraps the cause; otherwise the bytes are
  trimmed of surrounding white space and used when something is left.  When standard
  input is a terminal, or nothing is left after trimming, it fails with the error
  \<open>no input provided\<close>.  (The theorem says nothing of a standard input whose
  \<open>Stat\<close> fails.)
\<close>

theorem readInput_cases:
  "(args \<noteq> [] \<longrightarrow> readInput stdin args = Return (Inr (strings_Join args '' '')))
   \<and> (args = [] \<and> Stat stdin = Inr False \<and> ReadAll stdin = (data, None)
        \<and> strings_TrimSpace data \<noteq> [] \<longrightarrow>
          readInput stdin args = Return (Inr (strings_TrimSpace data)))
   \<and> (args = [] \<and> Stat stdin = Inr False \<and> ReadAll stdin = (data, Some err) \<longrightarrow>
          readInput stdin args
            = Return (Inl (Error (''reading stdin: '' @ err_msg err) (Some err))))
   \<and> (args = [] \<and> (Stat stdin = Inr True
                     \<or> (Stat stdin = Inr False \<and> ReadAll stdin = (data, None)
                         \<and> strings_TrimSpace data = [])) \<longrightarrow>
          readInput stdin args = Return (Inl no_input))
   \<and> prefix ''no input provided'' (err_msg no_input)"
  by (auto simp: readInput_def no_input_def)

lemma trim1: "strings_TrimSpace ''  piped note\<newline>'' = ''piped note''"
  by (simp add: strings_TrimSpace_def trimLeft.simps trimRight.simps leadingSpace_def trailingSpace_def asciiSpace_def unicodeSpaces_def)

lemma trim2: "strings_TrimSpace '' \<newline>'' = []"
  by (simp add: strings_TrimSpace_def trimLeft.simps trimRight.simps leadingSpace_def trailingSpace_def asciiSpace_def unicodeSpaces_def)

theorem readInput_cases_witness:
  "readInput \<lparr>Stat = Inr False, ReadAll = (''ignored'', None)\<rparr> [''two'', ''words'']
     = Return (Inr ''two words'')
   \<and> readInput \<lparr>Stat = Inr False, ReadAll = (''  piped note\<newline>'', None)\<rparr> []
     = Return (Inr ''piped note'')
   \<and> readInput \<lparr>Stat = Inr False,
                  ReadAll = ([], Some (Error ''read /dev/stdin: is a directory'' None))\<rparr> []
     = Return (Inl (Error ''reading stdin: read /dev/stdin: is a directory''
                      (Some (Error ''read /dev/stdin: is a directory'' None))))
   \<and> readInput \<lparr>Stat = Inr True, ReadAll = ([], None)\<rparr> [] = Return (Inl no_input)
   \<and> readInput \<lparr>Stat = Inr False, ReadAll = ('' \<newline>'', None)\<rparr> [] = Return (Inl no_input)"
  using readInput_cases [of "[''two'', ''words'']" "\<lparr>Stat = Inr False, ReadAll = (''ignored'', None)\<rparr>" "''ignored''" "Error [] None"]
    readInput_cases [of "[]" "\<lparr>Stat = Inr False, ReadAll = (''  piped note\<newline>'', None)\<rparr>" "''  piped note\<newline>''" "Error [] None"]
    readInput_cases [of "[]" "\<lparr>Stat = Inr False, ReadAll = ([], Some (Error ''read /dev/stdin: is a directory'' None))\<rparr>" "[]" "Error ''read /dev/stdin: is a directory'' None"]
    readInput_cases [of "[]" "\<lparr>Stat = Inr True, ReadAll = ([], None)\<rparr>" "'' \<newline>''" "Error [] None"]
    readInput_cases [of "[]" "\<lparr>Stat = Inr False, ReadAll = ('' \<newline>'', None)\<rparr>" "'' \<newline>''" "Error [] None"]
  by (simp add: trim1 trim2)

text \<open>
  C7 as stated fails when reading standard input fails: the error is then
  \<open>reading stdin: ...\<close>, not \<open>no input provided\<close>.
\<close>

theorem readInput_read_error:
  "readInput \<lparr>Stat = Inr False,
               ReadAll = ([], Some (Error ''read /dev/stdin: is a directory'' None))\<rparr> []
     = Return (Inl (Error ''reading stdin: read /dev/stdin: is a directory''
                      (Some (Error ''read /dev/stdin: is a directory'' None))))
   \<and> readInput \<lparr>Stat = Inr False,
                  ReadAll = ([], Some (Error ''read /dev/stdin: is a directory'' None))\<rparr> []
     \<noteq> Return (Inl no_input)"
  by (simp add: readInput_def no_input_def)

section \<open>The storage client\<close>

lemma Header_Get_Set_same: "Header_Get (Header_Set req k v) k = v"
  by (simp add: Header_Get_def Header_Set_def)

lemma map_of_filter_other:
  "k' \<noteq> k \<Longrightarrow> map_of (filter (\<lambda>kv. fst kv \<noteq> k) xs) k' = map_of xs k'"
  by (induction xs) auto

lemma Header_Get_Set_other: "k' \<noteq> k \<Longrightarrow> Header_Get (Header_Set req k v) k' = Header_Get req k'"
  by (simp add: Header_Get_def Header_Set_def map_of_filter_other)

text \<open>
  C2: when the download request was sent and answered, and the body of the answer was
  read, \<open>Download\<close> returns the body as it is on status 200; the empty string and no
  error on status 409 when the \<open>error_summary\<close> parsed from the body contains
  \<open>not_found\<close>; an error whose message carries the summary on any other 409; and an
  error whose message carries the status code and the body on every other status.
\<close>

theorem Download_by_status:
  assumes "fst (Download js net c path) = [Sent req]"
      and "http_Do net req = Inr resp"
      and "BodyErr resp = None"
  shows "(StatusCode resp = 200 \<longrightarrow> snd (Download js net c path) = Inr (Body resp))
       \<and> (StatusCode resp = 409 \<and> sublist ''not_found'' (apiErr_ErrorSummary js (Body resp)) \<longrightarrow>
            snd (Download js net c path) = Inr [])
       \<and> (StatusCode resp = 409 \<and> \<not> sublist ''not_found'' (apiErr_ErrorSummary js (Body resp)) \<longrightarrow>
            snd (Download js net c path)
              = Inl (Error (''dropbox API error: '' @ apiErr_ErrorSummary js (Body resp)) None))
       \<and> (StatusCode resp \<noteq> 200 \<and> StatusCode resp \<noteq> 409 \<longrightarrow>
            snd (Download js net c path)
              = Inl (Error (''dropbox API error (status '' @ itoa (StatusCode resp) @ ''): ''
                            @ Body resp) None))"
  using assms
  by (auto simp: Download_def Let_def strings_Contains_sublist
           split: sum.splits option.splits if_splits)

theorem Download_by_status_witness:
  \<open>snd (Download small_json
         (canned_net \<lparr>StatusCode = 200, Body = [], BodyErr = None\<rparr>
                     \<lparr>StatusCode = 200, Body = ''existing content'', BodyErr = None\<rparr>)
         \<lparr>Token = ''test-token'', BaseURL = []\<rparr> ''/Journal/2025/01/Note20250115.md'')
     = Inr ''existing content''
   \<and> snd (Download small_json
         (canned_net \<lparr>StatusCode = 200, Body = [], BodyErr = None\<rparr>
                     \<lparr>StatusCode = 409, Body = not_found_body, BodyErr = None\<rparr>)
         \<lparr>Token = ''test-token'', BaseURL = []\<rparr> ''/Journal/2025/01/Note20250115.md'')
     = Inr []
   \<and> snd (Download small_json
         (canned_net \<lparr>StatusCode = 200, Body = [], BodyErr = None\<rparr>
                     \<lparr>StatusCode = 409, Body = ''{"error_summary": "too_many_requests/"}'',
                        BodyErr = None\<rparr>)
         \<lparr>Token = ''test-token'', BaseURL = []\<rparr> ''/Journal/2025/01/Note20250115.md'')
     = Inl (Error ''dropbox API error: too_many_requests/'' None)
   \<and> snd (Download small_json
         (canned_net \<lparr>StatusCode = 200, Body = [], BodyErr = None\<rparr>
                     \<lparr>StatusCode = 500, Body = ''oops'', BodyErr = None\<rparr>)
         \<lparr>Token = ''test-token'', BaseURL = []\<rparr> ''/some/path.md'')
     = Inl (Error ''dropbox API error (status 500): oops'' None)\<close>
proof -
  let ?tok = "\<lparr>StatusCode = 200, Body = [], BodyErr = None\<rparr>"
  let ?c = "\<lparr>Token = ''test-token'', BaseURL = []\<rparr>"
  have sent: "\<exists>req. fst (Download small_json (canned_net ?tok resp) ?c p) = [Sent req]
                 \<and> http_Do (canned_net ?tok resp) req = Inr resp" for resp p
    by (simp add: Download_def canned_net_def http_NewRequest_def Let_def split: option.splits)
  have s1: "apiErr_ErrorSummary small_json not_found_body = ''path/not_found/''"
    by (simp add: apiErr_ErrorSummary_def small_json_def small_Unmarshal_def not_found_body_def
        json_space_def assign_def)
  have s2: \<open>apiErr_ErrorSummary small_json ''{"error_summary": "too_many_requests/"}''
             = ''too_many_requests/''\<close>
    by (simp add: apiErr_ErrorSummary_def small_json_def small_Unmarshal_def
        json_space_def assign_def)
  have c1: "sublist ''not_found'' ''path/not_found/''"
    by (simp add: strings_Contains_sublist [symmetric])
  have c2: "\<not> sublist ''not_found'' ''too_many_requests/''"
    by (simp add: strings_Contains_sublist [symmetric])
  have i500: "itoa 500 = ''500''"
    by (simp add: itoa_def decimal.simps digit_def)
  from sent obtain r1 where r1:
    "fst (Download small_json (canned_net ?tok \<lparr>StatusCode = 200, Body = ''existing content'', BodyErr = None\<rparr>) ?c ''/Journal/2025/01/Note20250115.md'') = [Sent r1]"
    "http_Do (canned_net ?tok \<lparr>StatusCode = 200, Body = ''existing content'', BodyErr = None\<rparr>) r1 = Inr \<lparr>StatusCode = 200, Body = ''existing content'', BodyErr = None\<rparr>"
    by blast
  from sent obtain r2 where r2:
    "fst (Download small_json (canned_net ?tok \<lparr>StatusCode = 409, Body = not_found_body, BodyErr = None\<rparr>) ?c ''/Journal/2025/01/Note20250115.md'') = [Sent r2]"
    "http_Do (canned_net ?tok \<lparr>StatusCode = 409, Body = not_found_body, BodyErr = None\<rparr>) r2 = Inr \<lparr>StatusCode = 409, Body = not_found_body, BodyErr = None\<rparr>"
    by blast
  from sent obtain r3 where r3:
    \<open>fst (Download small_json (canned_net ?tok \<lparr>StatusCode = 409, Body = ''{"error_summary": "too_many_requests/"}'', BodyErr = None\<rparr>) ?c ''/Journal/2025/01/Note20250115.md'') = [Sent r3]\<close>
    \<open>http_Do (canned_net ?tok \<lparr>StatusCode = 409, Body = ''{"error_summary": "too_many_requests/"}'', BodyErr = None\<rparr>) r3 = Inr \<lparr>StatusCode = 409, Body = ''{"error_summary": "too_many_requests/"}'', BodyErr = None\<rparr>\<close>
    by blast
  from sent obtain r4 where r4:
    "fst (Download small_json (canned_net ?tok \<lparr>StatusCode = 500, Body = ''oops'', BodyErr = None\<rparr>) ?c ''/some/path.md'') = [Sent r4]"
    "http_Do (canned_net ?tok \<lparr>StatusCode = 500, Body = ''oops'', BodyErr = None\<rparr>) r4 = Inr \<lparr>StatusCode = 500, Body = ''oops'', BodyErr = None\<rparr>"
    by blast
  show ?thesis
    using Download_by_status [OF r1] Download_by_status [OF r2] Download_by_status [OF r3]
      Download_by_status [OF r4]
    by (simp add: s1 s2 c1 c2 i500)
qed

lemma Header_Set_fields:
  "Method (Header_Set req k v) = Method req" "URL (Header_Set req k v) = URL req"
  "ReqBody (Header_Set req k v) = ReqBody req"
  by (simp_all add: Header_Set_def)

text \<open>
  C6: when the URL of the upload endpoint parses (the default one does),
  \<open>Upload\<close> sends one POST request to the upload endpoint whose body is the
  content, byte for byte, with the JSON of path, mode \<open>overwrite\<close> and mute
  \<open>true\<close> in the header \<open>Dropbox-API-Arg\<close>, the content type
  \<open>application/octet-stream\<close> and the bearer token; it returns no error when the
  answer has status 200 and an error carrying the status code and the body otherwise.
\<close>

theorem Upload_request_and_result:
  assumes "url_Parse_err net (baseURL c @ ''/2/files/upload'') = None"
  shows "\<exists>req. fst (Upload js net c path content) = [Sent req]
           \<and> Method req = ''POST'' \<and> URL req = baseURL c @ ''/2/files/upload''
           \<and> ReqBody req = content
           \<and> Header_Get req ''Dropbox-API-Arg''
               = Marshal_arg js (JObject [(''path'', JString path),
                                          (''mode'', JString ''overwrite''),
                                          (''mute'', JBool True)])
           \<and> Header_Get req ''Content-Type'' = ''application/octet-stream''
           \<and> Header_Get req ''Authorization'' = ''Bearer '' @ Token c
           \<and> (\<forall>resp. http_Do net req = Inr resp \<longrightarrow>
                  (StatusCode resp = 200 \<longrightarrow> snd (Upload js net c path content) = None)
                \<and> (StatusCode resp \<noteq> 200 \<longrightarrow>
                      snd (Upload js net c path content)
                        = Some (Error (''dropbox API error (status '' @ itoa (StatusCode resp)
                                       @ ''): '' @ Body resp) None)))"
  using assms
  by (auto simp: Upload_def http_NewRequest_def Let_def Header_Get_Set_same Header_Get_Set_other
           Header_Set_fields split: sum.splits)

lemma arg_text:
  \<open>Marshal_arg small_json (JObject [(''path'', JString ''/Journal/2025/01/Note20250115.md''),
                                      (''mode'', JString ''overwrite''), (''mute'', JBool True)])
     = ''{"mode":"overwrite","mute":true,"path":"/Journal/2025/01/Note20250115.md"}''\<close>
  by (simp add: Marshal_arg_def small_json_def small_Marshal_def member_texts_def
      sort_members_def json_quote_def)

theorem Upload_request_and_result_witness:
  \<open>Upload small_json
      (canned_net \<lparr>StatusCode = 200, Body = [], BodyErr = None\<rparr>
                  \<lparr>StatusCode = 200, Body = ''{}'', BodyErr = None\<rparr>)
      \<lparr>Token = ''test-token'', BaseURL = []\<rparr> ''/Journal/2025/01/Note20250115.md''
      ''file content here''
    = ([Sent \<lparr>Method = ''POST'', URL = ''https://content.dropboxapi.com/2/files/upload'',
               Header = [(''Content-Type'', ''application/octet-stream''),
                         (''Dropbox-API-Arg'',
                          ''{"mode":"overwrite","mute":true,"path":"/Journal/2025/01/Note20250115.md"}''),
                         (''Authorization'', ''Bearer test-token'')],
               ReqBody = ''file content here''\<rparr>], None)
   \<and> snd (Upload small_json
      (canned_net \<lparr>StatusCode = 200, Body = [], BodyErr = None\<rparr>
                  \<lparr>StatusCode = 500, Body = ''oops'', BodyErr = None\<rparr>)
      \<lparr>Token = ''test-token'', BaseURL = []\<rparr> ''/some/path.md'' ''content'')
    = Some (Error ''dropbox API error (status 500): oops'' None)\<close>
proof -
  let ?tok = "\<lparr>StatusCode = 200, Body = [], BodyErr = None\<rparr>"
  let ?ok = "\<lparr>StatusCode = 200, Body = ''{}'', BodyErr = None\<rparr>"
  let ?bad = "\<lparr>StatusCode = 500, Body = ''oops'', BodyErr = None\<rparr>"
  let ?c = "\<lparr>Token = ''test-token'', BaseURL = []\<rparr>"
  have parse: "url_Parse_err (canned_net ?tok resp) (baseURL ?c @ ''/2/files/upload'') = None"
    for resp
    by (simp add: canned_net_def)
  have i500: "itoa 500 = ''500''"
    by (simp add: itoa_def decimal.simps digit_def)
  have first: "fst (Upload small_json (canned_net ?tok ?ok) ?c ''/Journal/2025/01/Note20250115.md''
                 ''file content here'')
      = [Sent \<lparr>Method = ''POST'', URL = ''https://content.dropboxapi.com/2/files/upload'',
               Header = [(''Content-Type'', ''application/octet-stream''),
                         (''Dropbox-API-Arg'',
                          Marshal_arg small_json (JObject [(''path'', JString ''/Journal/2025/01/Note20250115.md''),
                                      (''mode'', JString ''overwrite''), (''mute'', JBool True)])),
                         (''Authorization'', ''Bearer test-token'')],
               ReqBody = ''file content here''\<rparr>]"
    by (simp add: Upload_def http_NewRequest_def canned_net_def Header_Set_def baseURL_def
        defaultBaseURL_def Let_def)
  have do: "http_Do (canned_net ?tok resp) req = Inr resp" for resp req
    by (simp add: canned_net_def)
  show ?thesis
    using Upload_request_and_result [OF parse [of ?ok], of small_json
        "''/Journal/2025/01/Note20250115.md''" "''file content here''"]
      Upload_request_and_result [OF parse [of ?bad], of small_json "''/some/path.md''" "''content''"]
    by (auto simp: first arg_text do i500 prod_eq_iff)
qed

section \<open>The token resolver and the config store\<close>

lemma set_nonempty_Getenv: "set_nonempty env key = (os_Getenv env key \<noteq> [])"
  by (simp add: set_nonempty_def os_Getenv_def split: option.splits)

lemma sublist_middle: "sublist b (a @ b @ c)"
  by (auto simp: sublist_def)

text \<open>
  C3: a \<open>DROPBOX_TOKEN\<close> that is set and non-empty is returned as it is, whatever the
  config holds, and nothing is sent.  Otherwise, with app key, app secret and refresh
  token all non-empty, the result is the access token of the refresh operation, or, when
  that fails, an error that wraps the failure, carries its message and tells the user to
  run \<open>dropbox-appender auth\<close>.  Otherwise it is an error that tells the user to run
  \<open>dropbox-appender auth\<close>.
\<close>

theorem resolveToken_priority:
  "(set_nonempty env ''DROPBOX_TOKEN'' \<longrightarrow>
      resolveToken env js net cfg = ([], Inr (os_Getenv env ''DROPBOX_TOKEN'')))
   \<and> (\<not> set_nonempty env ''DROPBOX_TOKEN''
        \<and> AppKey cfg \<noteq> [] \<and> AppSecret cfg \<noteq> [] \<and> RefreshToken cfg \<noteq> [] \<longrightarrow>
          (\<forall>token.
              snd (refreshAccessToken js net defaultTokenURL (AppKey cfg) (AppSecret cfg)
                     (RefreshToken cfg)) = Inr token \<longrightarrow>
              snd (resolveToken env js net cfg) = Inr token)
        \<and> (\<forall>cause.
              snd (refreshAccessToken js net defaultTokenURL (AppKey cfg) (AppSecret cfg)
                     (RefreshToken cfg)) = Inl cause \<longrightarrow>
              (\<exists>message.
                  snd (resolveToken env js net cfg) = Inl (Error message (Some cause))
                \<and> sublist ''run: dropbox-appender auth'' message
                \<and> sublist (err_msg cause) message)))
   \<and> (\<not> set_nonempty env ''DROPBOX_TOKEN''
        \<and> (AppKey cfg = [] \<or> AppSecret cfg = [] \<or> RefreshToken cfg = []) \<longrightarrow>
          (\<exists>message.
              resolveToken env js net cfg = ([], Inl (Error message None))
            \<and> sublist ''run: dropbox-appender auth'' message))"
proof -
  have a: "sublist ''run: dropbox-appender auth''
             (''refresh token invalid, run: dropbox-appender auth\<newline>  ('' @ m @ '')'')" for m
    using sublist_middle [of "''run: dropbox-appender auth''" "''refresh token invalid, ''"
        "''\<newline>  ('' @ m @ '')''"]
    by simp
  have b: "sublist m (''refresh token invalid, run: dropbox-appender auth\<newline>  ('' @ m @ '')'')"
    for m :: string
    using sublist_middle [of m "''refresh token invalid, run: dropbox-appender auth\<newline>  (''"
        "'')''"]
    by simp
  have c: "sublist ''run: dropbox-appender auth''
             ''no authentication configured, run: dropbox-appender auth''"
    using sublist_middle [of "''run: dropbox-appender auth''" "''no authentication configured, ''" "[]"]
    by simp
  show ?thesis
    using a b c
    by (auto simp: resolveToken_def set_nonempty_Getenv Let_def split: prod.splits sum.splits)
qed

lemma itoa_400: "itoa 400 = ''400''"
  by (simp add: itoa_def decimal.simps digit_def)

lemma fresh_token_parsed:
  "Unmarshal_tokenResponse small_json fresh_token_body
     \<lparr>AccessToken = [], tr_RefreshToken = [], TokenType = []\<rparr>
   = (None, \<lparr>AccessToken = ''fresh_token'', tr_RefreshToken = [], TokenType = ''bearer''\<rparr>)"
  by (simp add: Unmarshal_tokenResponse_def small_json_def small_Unmarshal_def fresh_token_body_def
      json_space_def assign_def)

lemma trim_error_body:
  \<open>strings_TrimSpace ''{"error_description":"invalid refresh token"}''
     = ''{"error_description":"invalid refresh token"}''\<close>
  by (simp add: strings_TrimSpace_def trimLeft.simps trimRight.simps leadingSpace_def
      trailingSpace_def asciiSpace_def unicodeSpaces_def)

theorem resolveToken_priority_witness:
  \<open>resolveToken [''DROPBOX_TOKEN'' \<mapsto> ''direct_token''] small_json (journal_server None)
       \<lparr>AppKey = ''k'', AppSecret = ''s'', RefreshToken = ''r''\<rparr>
     = ([], Inr ''direct_token'')
   \<and> snd (resolveToken Map.empty small_json (journal_server None)
            \<lparr>AppKey = ''k'', AppSecret = ''s'', RefreshToken = ''r''\<rparr>)
     = Inr ''fresh_token''
   \<and> snd (resolveToken Map.empty small_json
            (canned_net \<lparr>StatusCode = 400, Body = ''{"error_description":"invalid refresh token"}'',
                           BodyErr = None\<rparr>
                        \<lparr>StatusCode = 200, Body = [], BodyErr = None\<rparr>)
            \<lparr>AppKey = ''k'', AppSecret = ''s'', RefreshToken = ''r''\<rparr>)
     = Inl (Error (''refresh token invalid, run: dropbox-appender auth\<newline>  (''
                   @ ''token refresh failed (status 400): {"error_description":"invalid refresh token"}''
                   @ '')'')
              (Some (Error ''token refresh failed (status 400): {"error_description":"invalid refresh token"}''
                       None)))
   \<and> resolveToken Map.empty small_json (journal_server None) Config_zero
     = ([], Inl (Error ''no authentication configured, run: dropbox-appender auth'' None))\<close>
proof -
  let ?cfg = "\<lparr>AppKey = ''k'', AppSecret = ''s'', RefreshToken = ''r''\<rparr>"
  let ?bad = \<open>canned_net \<lparr>StatusCode = 400, Body = ''{"error_description":"invalid refresh token"}'',
                           BodyErr = None\<rparr>
                        \<lparr>StatusCode = 200, Body = [], BodyErr = None\<rparr>\<close>
  have ok: "snd (refreshAccessToken small_json (journal_server None) defaultTokenURL ''k'' ''s'' ''r'')
              = Inr ''fresh_token''"
    by (simp add: refreshAccessToken_def journal_server_def fresh_token_parsed Let_def)
  have bad: \<open>snd (refreshAccessToken small_json ?bad defaultTokenURL ''k'' ''s'' ''r'')
      = Inl (Error ''token refresh failed (status 400): {"error_description":"invalid refresh token"}''
               None)\<close>
    by (simp add: refreshAccessToken_def canned_net_def Let_def itoa_400 trim_error_body)
  show ?thesis
    using resolveToken_priority [of "[''DROPBOX_TOKEN'' \<mapsto> ''direct_token'']" small_json
        "journal_server None" ?cfg]
      resolveToken_priority [of Map.empty small_json "journal_server None" ?cfg]
      resolveToken_priority [of Map.empty small_json ?bad ?cfg]
      resolveToken_priority [of Map.empty small_json "journal_server None" Config_zero]
    by (auto simp: set_nonempty_def os_Getenv_def ok bad Config_zero_def resolveToken_def Let_def
             split: prod.splits sum.splits)
qed

text \<open>
  C4, as amended: \<open>loadConfig\<close> never returns an error.  Each field of the
  \<open>Config\<close> it returns is the value of the field's environment variable when that is
  set and non-empty, and otherwise what the file gives for the field.  A file that is
  missing, or cannot be read, or is not well-formed JSON gives the zero \<open>Config\<close>.
  A well-formed file gives each field the string \<open>json.Unmarshal\<close> decodes for its
  tag, and the empty string where it decodes none, also when \<open>json.Unmarshal\<close>
  reports an error for another member.
\<close>

theorem loadConfig_file_and_env:
  "loadConfig env js fs path
     = (\<lparr>AppKey = (if set_nonempty env ''DROPBOX_APP_KEY'' then os_Getenv env ''DROPBOX_APP_KEY''
                      else file_value js fs path ''app_key''),
         AppSecret = (if set_nonempty env ''DROPBOX_APP_SECRET''
                      then os_Getenv env ''DROPBOX_APP_SECRET''
                      else file_value js fs path ''app_secret''),
         RefreshToken = (if set_nonempty env ''DROPBOX_REFRESH_TOKEN''
                                 then os_Getenv env ''DROPBOX_REFRESH_TOKEN''
                         else file_value js fs path ''refresh_token'')\<rparr>, None)
   \<and> ((\<exists>err. ReadFile fs path = Inl err)
        \<or> (\<exists>data err. ReadFile fs path = Inr data \<and> json_Unmarshal js data = SyntaxError err) \<longrightarrow>
          loadConfig Map.empty js fs path = (Config_zero, None))
   \<and> (\<forall>data f err.
          ReadFile fs path = Inr data \<and> json_Unmarshal js data = Decoded f err \<longrightarrow>
          loadConfig Map.empty js fs path
            = (\<lparr>AppKey = (case f ''app_key'' of None \<Rightarrow> [] | Some v \<Rightarrow> v),
                AppSecret = (case f ''app_secret'' of None \<Rightarrow> [] | Some v \<Rightarrow> v),
                RefreshToken = (case f ''refresh_token'' of None \<Rightarrow> [] | Some v \<Rightarrow> v)\<rparr>,
               None))"
  by (auto simp: loadConfig_def Let_def set_nonempty_Getenv os_Getenv_def Unmarshal_Config_def
           file_value_def assign_def Config_zero_def
           split: sum.splits option.splits json_decoded.splits)

lemma test_config_parsed:
  "json_Unmarshal small_json test_config_file
     = Decoded (map_of [(''refresh_token'', ''file_refresh''), (''app_secret'', ''file_secret''),
                        (''app_key'', ''file_key'')]) None"
  by (simp add: small_json_def small_Unmarshal_def test_config_file_def json_space_def)

lemma garbage_rejected:
  "\<exists>err. json_Unmarshal small_json ''not json {'' = SyntaxError err"
  by (simp add: small_json_def small_Unmarshal_def json_space_def)

lemma mistyped_config_parsed:
  "json_Unmarshal small_json mistyped_config_file
     = Decoded (map_of [(''refresh_token'', ''r''), (''app_secret'', ''s'')]) (Some wrong_type)"
  by (simp add: small_json_def small_Unmarshal_def mistyped_config_file_def json_space_def
      after_number_def)

theorem loadConfig_file_and_env_witness:
  "loadConfig [''DROPBOX_APP_KEY'' \<mapsto> ''env_key''] small_json
       (small_files [(''/home/u/.config/dropbox-appender/config.json'', test_config_file)])
       ''/home/u/.config/dropbox-appender/config.json''
     = (\<lparr>AppKey = ''env_key'', AppSecret = ''file_secret'', RefreshToken = ''file_refresh''\<rparr>, None)
   \<and> loadConfig Map.empty small_json (small_files []) ''/nonexistent/config.json''
     = (Config_zero, None)
   \<and> loadConfig Map.empty small_json (small_files [(''/tmp/config.json'', ''not json {'')])
       ''/tmp/config.json''
     = (Config_zero, None)
   \<and> loadConfig Map.empty small_json (small_files [(''/tmp/config.json'', mistyped_config_file)])
       ''/tmp/config.json''
     = (\<lparr>AppKey = [], AppSecret = ''s'', RefreshToken = ''r''\<rparr>, None)"
proof -
  let ?p = "''/home/u/.config/dropbox-appender/config.json''"
  let ?fs = "small_files [(?p, test_config_file)]"
  have from_file: "file_value small_json ?fs ?p ''app_secret'' = ''file_secret''"
    "file_value small_json ?fs ?p ''refresh_token'' = ''file_refresh''"
    by (simp_all add: file_value_def small_files_def test_config_parsed)
  have missing: "\<exists>err. ReadFile (small_files []) ''/nonexistent/config.json'' = Inl err"
    by (simp add: small_files_def)
  have garbage: "\<exists>data err. ReadFile (small_files [(''/tmp/config.json'', ''not json {'')]) ''/tmp/config.json'' = Inr data
                   \<and> json_Unmarshal small_json data = SyntaxError err"
    using garbage_rejected by (simp add: small_files_def)
  have mistyped: "ReadFile (small_files [(''/tmp/config.json'', mistyped_config_file)]) ''/tmp/config.json''
                    = Inr mistyped_config_file"
    by (simp add: small_files_def)
  note overridden =
    loadConfig_file_and_env [of "[''DROPBOX_APP_KEY'' \<mapsto> ''env_key'']" small_json ?fs ?p,
      THEN conjunct1]
  note absent =
    loadConfig_file_and_env [of Map.empty small_json "small_files []" "''/nonexistent/config.json''",
      THEN conjunct2, THEN conjunct1]
  note malformed =
    loadConfig_file_and_env [of Map.empty small_json
      "small_files [(''/tmp/config.json'', ''not json {'')]" "''/tmp/config.json''",
      THEN conjunct2, THEN conjunct1]
  note wrongly_typed =
    loadConfig_file_and_env [of Map.empty small_json
      "small_files [(''/tmp/config.json'', mistyped_config_file)]" "''/tmp/config.json''",
      THEN conjunct2, THEN conjunct2, rule_format, OF conjI, OF mistyped mistyped_config_parsed]
  have c1: "loadConfig [''DROPBOX_APP_KEY'' \<mapsto> ''env_key''] small_json ?fs ?p
      = (\<lparr>AppKey = ''env_key'', AppSecret = ''file_secret'', RefreshToken = ''file_refresh''\<rparr>,
         None)"
    using overridden by (simp add: from_file set_nonempty_def os_Getenv_def)
  have c2: "loadConfig Map.empty small_json (small_files []) ''/nonexistent/config.json''
      = (Config_zero, None)"
    using absent missing by blast
  have c3: "loadConfig Map.empty small_json (small_files [(''/tmp/config.json'', ''not json {'')])
       ''/tmp/config.json'' = (Config_zero, None)"
    using malformed garbage by blast
  have c4: "loadConfig Map.empty small_json
       (small_files [(''/tmp/config.json'', mistyped_config_file)]) ''/tmp/config.json''
     = (\<lparr>AppKey = [], AppSecret = ''s'', RefreshToken = ''r''\<rparr>, None)"
    using wrongly_typed by simp
  show ?thesis
    using c1 c2 c3 c4 by blast
qed

text \<open>
  C4 as stated fails for a file that \<open>json.Unmarshal\<close> cannot parse into the
  \<open>Config\<close> because a member has the wrong type: \<open>json.Unmarshal\<close> returns an
  error, \<open>loadConfig\<close> discards it, and the members that did parse are in the
  \<open>Config\<close>, which is not the zero one.
\<close>

theorem loadConfig_mistyped_file:
  "fst (Unmarshal_Config small_json mistyped_config_file Config_zero) = Some wrong_type
   \<and> loadConfig Map.empty small_json
         (small_files [(''/tmp/config.json'', mistyped_config_file)]) ''/tmp/config.json''
       = (\<lparr>AppKey = [], AppSecret = ''s'', RefreshToken = ''r''\<rparr>, None)
   \<and> fst (loadConfig Map.empty small_json
              (small_files [(''/tmp/config.json'', mistyped_config_file)]) ''/tmp/config.json'')
       \<noteq> Config_zero"
  by (simp add: loadConfig_def Unmarshal_Config_def mistyped_config_parsed small_files_def
      assign_def os_Getenv_def Config_zero_def Let_def)








section \<open>The append flow\<close>

lemma uploads_append: "uploads (a @ b) = uploads a @ uploads b"
  by (simp add: uploads_def)

lemma refreshAccessToken_uploads: "uploads (fst (refreshAccessToken js net url k s r)) = []"
  by (simp add: refreshAccessToken_def uploads_def Let_def split: sum.splits option.splits prod.splits)

lemma resolveToken_uploads: "uploads (fst (resolveToken env js net cfg)) = []"
  using refreshAccessToken_uploads [of js net defaultTokenURL "AppKey cfg" "AppSecret cfg" "RefreshToken cfg"]
  by (auto simp: resolveToken_def Let_def uploads_def split: sum.splits prod.splits)

lemma Download_log:
  "fst (Download js net c path) = []
   \<or> (\<exists>req. fst (Download js net c path) = [Sent req]
              \<and> URL req = baseURL c @ ''/2/files/download'')"
  by (auto simp: Download_def http_NewRequest_def Let_def Header_Set_fields
           split: sum.splits option.splits)

lemma Download_uploads:
  "uploads (fst (Download js net \<lparr>Token = token, BaseURL = []\<rparr> path)) = []"
  using Download_log [of js net "\<lparr>Token = token, BaseURL = []\<rparr>" path]
  by (auto simp: uploads_def baseURL_def defaultBaseURL_def)

lemma Upload_uploads:
  "Upload js net \<lparr>Token = token, BaseURL = []\<rparr> path content = (log, None) \<Longrightarrow>
   uploads log = [content]"
  by (auto simp: Upload_def http_NewRequest_def uploads_def Let_def baseURL_def
      Header_Set_fields split: sum.splits option.splits if_splits)

lemma main_append_success:
  assumes "main_append w = (log, Return e)" and "exit_code e = 0"
  shows "\<exists>cfg log1 token input existing.
           fst (loadConfig (os_Environ w) (json_lib w) (os_Files w) (defaultConfigPath w)) = cfg
         \<and> resolveToken (os_Environ w) (json_lib w) (network w) cfg = (log1, Inr token)
         \<and> readInput (os_Stdin w) (flag_Args w) = Return (Inr input)
         \<and> snd (Download (json_lib w) (network w) \<lparr>Token = token, BaseURL = []\<rparr>
                  (resolvePath (time_Now w))) = Inr existing
         \<and> uploads log
             = [appendContent existing (formatEntry (time_Now w) input (flag_noTimestamp w))]
         \<and> stdout e = ''Appended to '' @ resolvePath (time_Now w) @ ''\<newline>''"
proof -
  obtain cfg where cfg: "loadConfig (os_Environ w) (json_lib w) (os_Files w) (defaultConfigPath w) = (cfg, None)"
    by (simp add: loadConfig_def Let_def)
  obtain log1 r1 where r1: "resolveToken (os_Environ w) (json_lib w) (network w) cfg = (log1, r1)"
    by (cases "resolveToken (os_Environ w) (json_lib w) (network w) cfg")
  from assms cfg r1 obtain token where token: "r1 = Inr token"
    by (cases r1) (auto simp: main_append_def Let_def os_Exit1_def)
  from assms cfg r1 token obtain input where
    input: "readInput (os_Stdin w) (flag_Args w) = Return (Inr input)"
    by (cases "readInput (os_Stdin w) (flag_Args w)")
       (auto simp: main_append_def Let_def os_Exit1_def split: sum.splits)
  let ?client = "\<lparr>Token = token, BaseURL = []\<rparr>"
  let ?path = "resolvePath (time_Now w)"
  let ?entry = "formatEntry (time_Now w) input (flag_noTimestamp w)"
  obtain log2 r2 where r2: "Download (json_lib w) (network w) ?client ?path = (log2, r2)"
    by (cases "Download (json_lib w) (network w) ?client ?path")
  from assms cfg r1 token input r2 obtain existing where existing: "r2 = Inr existing"
    by (cases r2) (auto simp: main_append_def Let_def os_Exit1_def)
  obtain log3 r3 where r3:
    "Upload (json_lib w) (network w) ?client ?path (appendContent existing ?entry) = (log3, r3)"
    by (cases "Upload (json_lib w) (network w) ?client ?path (appendContent existing ?entry)")
  from assms cfg r1 token input r2 existing r3
  have fin: "r3 = None" "log = log1 @ log2 @ log3"
    "stdout e = ''Appended to '' @ ?path @ ''\<newline>''"
    by (cases r3; auto simp: main_append_def Let_def os_Exit1_def)+
  have "uploads log1 = []" using resolveToken_uploads [of "os_Environ w" "json_lib w" "network w" cfg] r1 by simp
  moreover have "uploads log2 = []" using Download_uploads [of "json_lib w" "network w" token ?path] r2 by simp
  moreover have "uploads log3 = [appendContent existing ?entry]"
    using Upload_uploads r3 fin(1) by simp
  ultimately have "uploads log = [appendContent existing ?entry]"
    using fin(2) by (simp add: uploads_append)
  with cfg r1 token input r2 existing fin(3) show ?thesis by simp
qed

text \<open>
  C1: in every run of the append flow that ends with exit code 0, the token was
  resolved, the input was read, the download returned some content, and exactly one
  upload was sent, whose body is the downloaded content, one line feed and the newly
  formatted entry when the downloaded content is not empty, and the newly formatted
  entry alone when it is empty (as it is when the server reports that the file does
  not exist).
\<close>

theorem append_run_content:
  assumes "main_append w = (log, Return e)" and "exit_code e = 0"
  shows "\<exists>log1 token input existing.
           resolveToken (os_Environ w) (json_lib w) (network w)
             (fst (loadConfig (os_Environ w) (json_lib w) (os_Files w) (defaultConfigPath w)))
             = (log1, Inr token)
         \<and> readInput (os_Stdin w) (flag_Args w) = Return (Inr input)
         \<and> snd (Download (json_lib w) (network w) \<lparr>Token = token, BaseURL = []\<rparr>
                  (resolvePath (time_Now w))) = Inr existing
         \<and> (existing \<noteq> [] \<longrightarrow>
               uploads log
                 = [existing @ ''\<newline>'' @ formatEntry (time_Now w) input (flag_noTimestamp w)])
         \<and> (existing = [] \<longrightarrow>
               uploads log = [formatEntry (time_Now w) input (flag_noTimestamp w)])"
proof -
  from main_append_success [OF assms] obtain log1 token input existing where
    r: "resolveToken (os_Environ w) (json_lib w) (network w)
          (fst (loadConfig (os_Environ w) (json_lib w) (os_Files w) (defaultConfigPath w)))
          = (log1, Inr token)"
    and i: "readInput (os_Stdin w) (flag_Args w) = Return (Inr input)"
    and d: "snd (Download (json_lib w) (network w) \<lparr>Token = token, BaseURL = []\<rparr>
                  (resolvePath (time_Now w))) = Inr existing"
    and u: "uploads log
             = [appendContent existing (formatEntry (time_Now w) input (flag_noTimestamp w))]"
    by blast
  from u have "existing \<noteq> [] \<longrightarrow>
               uploads log
                 = [existing @ ''\<newline>'' @ formatEntry (time_Now w) input (flag_noTimestamp w)]"
    and "existing = [] \<longrightarrow>
               uploads log = [formatEntry (time_Now w) input (flag_noTimestamp w)]"
    by (simp_all add: appendContent_def)
  with r i d show ?thesis by blast
qed

text \<open>
  C10: \<open>formatEntry\<close> always ends with a line feed, \<open>appendContent\<close> always
  ends with the entry it was given, and so the one document uploaded by a run that ends
  with exit code 0 ends with a line feed.
\<close>

theorem written_content_ends_with_newline:
  "suffix ''\<newline>'' (formatEntry t text noTimestamp)
   \<and> suffix entry (appendContent existing entry)
   \<and> suffix ''\<newline>'' (appendContent existing (formatEntry t text noTimestamp))
   \<and> (main_append w = (log, Return e) \<and> exit_code e = 0 \<longrightarrow>
         (\<exists>content. uploads log = [content] \<and> suffix ''\<newline>'' content))"
proof -
  have a: "suffix ''\<newline>'' (formatEntry u x n)" for u x n
    by (rule formatEntry_newline)
  have b: "suffix y (appendContent x y)" for x y :: string
    by (rule appendContent_suffix)
  have c: "suffix ''\<newline>'' (appendContent x (formatEntry u y n))" for x u y n
    using a b suffix_order.trans by blast
  have d: "\<exists>content. uploads log = [content] \<and> suffix ''\<newline>'' content"
    if "main_append w = (log, Return e)" "exit_code e = 0"
  proof -
    from main_append_success [OF that] obtain input existing where
      "uploads log
         = [appendContent existing (formatEntry (time_Now w) input (flag_noTimestamp w))]"
      by blast
    with c show ?thesis by simp
  qed
  show ?thesis
    using a b c d by blast
qed

lemma clock_0900: "Format \<lparr>Year = 2025, Month = Suc 0, Day = 15, Hour = 9, Minute = 0, Second = 0\<rparr> ''15:04:05'' = ''09:00:00''"
  by (simp add: Format_clock appendInt_def decimal.simps digit_def Let_def replicate_small)

lemma clock_1430: "Format \<lparr>Year = 2025, Month = Suc 0, Day = 15, Hour = 14, Minute = 30, Second = 45\<rparr> ''15:04:05'' = ''14:30:45''"
  by (simp add: Format_clock appendInt_def decimal.simps digit_def Let_def replicate_small)

lemma path_20250115:
  "resolvePath \<lparr>Year = 2025, Month = Suc 0, Day = 15, Hour = h, Minute = m, Second = s\<rparr>
     = ''/Notes/Journal/2025/01/Note20250115.md''"
  by (simp add: resolvePath_def Format_year Format_month Format_date appendInt_def decimal.simps
      digit_def Let_def replicate_small)

lemma trim_afternoon: "strings_TrimSpace ''afternoon note\<newline>'' = ''afternoon note''"
  by (simp add: strings_TrimSpace_def trimLeft.simps trimRight.simps leadingSpace_def
      trailingSpace_def asciiSpace_def unicodeSpaces_def)

lemma not_found_summary: "apiErr_ErrorSummary small_json not_found_body = ''path/not_found/''"
  by (simp add: apiErr_ErrorSummary_def small_json_def small_Unmarshal_def not_found_body_def
      json_space_def assign_def)

lemma first_note_run:
  "\<exists>log. main_append first_note_world
      = (log, Return \<lparr>exit_code = 0,
                       stdout = ''Appended to /Notes/Journal/2025/01/Note20250115.md\<newline>'',
                       stderr = []\<rparr>)"
  by (simp add: main_append_def first_note_world_def loadConfig_def small_files_def os_Getenv_def
      resolveToken_def readInput_def path_20250115 Download_def Upload_def http_NewRequest_def
      journal_server_def Header_Set_def baseURL_def defaultBaseURL_def not_found_summary
      Let_def Config_zero_def)

lemma afternoon_run:
  "\<exists>log. main_append afternoon_world
      = (log, Return \<lparr>exit_code = 0,
                       stdout = ''Appended to /Notes/Journal/2025/01/Note20250115.md\<newline>'',
                       stderr = []\<rparr>)"
  by (simp add: main_append_def afternoon_world_def loadConfig_def small_files_def os_Getenv_def
      Unmarshal_Config_def test_config_parsed assign_def
      resolveToken_def refreshAccessToken_def fresh_token_parsed
      readInput_def trim_afternoon path_20250115 Download_def Upload_def http_NewRequest_def
      journal_server_def Header_Set_def baseURL_def defaultBaseURL_def
      Let_def Config_zero_def)

lemma first_note_parts:
  "readInput (os_Stdin first_note_world) (flag_Args first_note_world)
     = Return (Inr ''first note of the day'')"
  "snd (Download (json_lib first_note_world) (network first_note_world)
          \<lparr>Token = token, BaseURL = []\<rparr> path) = Inr []"
  "formatEntry (time_Now first_note_world) ''first note of the day''
     (flag_noTimestamp first_note_world) = ''### 09:00:00\<newline>first note of the day\<newline>''"
  by (simp_all add: first_note_world_def readInput_def Download_def http_NewRequest_def
      journal_server_def Header_Set_def baseURL_def defaultBaseURL_def not_found_summary
      formatEntry_def clock_0900 Let_def)

lemma afternoon_parts:
  "readInput (os_Stdin afternoon_world) (flag_Args afternoon_world)
     = Return (Inr ''afternoon note'')"
  "snd (Download (json_lib afternoon_world) (network afternoon_world)
          \<lparr>Token = token, BaseURL = []\<rparr> path) = Inr ''### 10:00:00\<newline>morning note\<newline>''"
  "formatEntry (time_Now afternoon_world) ''afternoon note''
     (flag_noTimestamp afternoon_world) = ''### 14:30:45\<newline>afternoon note\<newline>''"
  by (simp_all add: afternoon_world_def readInput_def trim_afternoon Download_def
      http_NewRequest_def journal_server_def Header_Set_def baseURL_def defaultBaseURL_def
      formatEntry_def clock_1430 Let_def)

theorem append_run_content_witness:
  "(\<exists>log. main_append first_note_world
            = (log, Return \<lparr>exit_code = 0,
                             stdout = ''Appended to /Notes/Journal/2025/01/Note20250115.md\<newline>'',
                             stderr = []\<rparr>)
         \<and> uploads log = [''### 09:00:00\<newline>first note of the day\<newline>''])
   \<and> (\<exists>log. main_append afternoon_world
            = (log, Return \<lparr>exit_code = 0,
                             stdout = ''Appended to /Notes/Journal/2025/01/Note20250115.md\<newline>'',
                             stderr = []\<rparr>)
         \<and> uploads log
             = [''### 10:00:00\<newline>morning note\<newline>\<newline>### 14:30:45\<newline>afternoon note\<newline>''])"
proof -
  from first_note_run obtain log1 where
    run1: "main_append first_note_world
            = (log1, Return \<lparr>exit_code = 0,
                              stdout = ''Appended to /Notes/Journal/2025/01/Note20250115.md\<newline>'',
                              stderr = []\<rparr>)"
    by blast
  from afternoon_run obtain log2 where
    run2: "main_append afternoon_world
            = (log2, Return \<lparr>exit_code = 0,
                              stdout = ''Appended to /Notes/Journal/2025/01/Note20250115.md\<newline>'',
                              stderr = []\<rparr>)"
    by blast
  have "uploads log1 = [''### 09:00:00\<newline>first note of the day\<newline>'']"
    using append_run_content [OF run1] by (auto simp: first_note_parts)
  moreover
  have "uploads log2
          = [''### 10:00:00\<newline>morning note\<newline>\<newline>### 14:30:45\<newline>afternoon note\<newline>'']"
    using append_run_content [OF run2] by (auto simp: afternoon_parts)
  ultimately show ?thesis using run1 run2 by blast
qed

theorem written_content_ends_with_newline_witness:
  "\<exists>log. main_append afternoon_world
            = (log, Return \<lparr>exit_code = 0,
                             stdout = ''Appended to /Notes/Journal/2025/01/Note20250115.md\<newline>'',
                             stderr = []\<rparr>)
         \<and> (\<exists>content. uploads log = [content] \<and> suffix ''\<newline>'' content)"
proof -
  from afternoon_run obtain log where
    run: "main_append afternoon_world
            = (log, Return \<lparr>exit_code = 0,
                             stdout = ''Appended to /Notes/Journal/2025/01/Note20250115.md\<newline>'',
                             stderr = []\<rparr>)"
    by blast
  from written_content_ends_with_newline
         [of "time_Now afternoon_world" "[]" False "[]" "[]" afternoon_world log
             "\<lparr>exit_code = 0,
               stdout = ''Appended to /Notes/Journal/2025/01/Note20250115.md\<newline>'',
               stderr = []\<rparr>"] run
  have "\<exists>content. uploads log = [content] \<and> suffix ''\<newline>'' content" by simp
  with run show ?thesis by blast
qed

end
